theory Spec2Isabelle
  imports Complex_Main "HOL-Library.Product_Lexorder"
begin

section \<open>Data model\<close>

text \<open>
  The persistent state of the backend is a relational database reached through an ORM.
  Each table is modelled as a list of rows; the primary key of a row is its position in
  the list, so that keys are unique by construction and a new row receives the next
  free key. Amounts are the \<open>Decimal\<close> values of the source, modelled as exact rationals;
  timestamps are integers (seconds).
\<close>

datatype OrderType = BUY | SELL

datatype OrderStatus = PENDING | PARTIALLY_FILLED | FILLED | CANCELLED | EXPIRED

datatype OrderBookOrderType = MARKET | LIMIT | STOP_LOSS

datatype P2PTradeStatus =
  P2P_PENDING | PAYMENT_SENT | PAYMENT_RECEIVED | COMPLETED | P2P_CANCELLED | DISPUTED

datatype DisputeStatus = OPEN | IN_REVIEW | UNDER_REVIEW | RESOLVED | REJECTED

datatype TransactionType =
  DEPOSIT | WITHDRAWAL | TRADE | P2P_BUY | P2P_SELL | TRANSFER | FEE | ESCROW_LOCK | ESCROW_RELEASE

text \<open>
  Errors: the HTTP exceptions raised by the route handlers (status code and detail), and
  the Python exceptions that the handlers do not catch themselves.
\<close>

datatype error =
  HTTP_400_BAD_REQUEST string
  | HTTP_403_FORBIDDEN string
  | HTTP_404_NOT_FOUND string
  | TypeError
  | ValueError
  | DecimalException

record wallet =
  w_user_id :: nat
  w_currency :: string
  available_balance :: rat
  locked_balance :: rat

record transaction =
  wallet_id :: nat
  tx_type :: TransactionType
  tx_amount :: rat
  tx_currency :: string
  tx_status :: string
  reference_id :: "string option"

record order =
  o_user_id :: nat
  o_instrument :: string
  order_type :: OrderType
  order_subtype :: OrderBookOrderType
  o_price :: "rat option"
  o_quantity :: rat
  remaining_quantity :: rat
  o_status :: OrderStatus
  o_created_at :: int

record trade =
  t_order_id :: nat
  t_buyer_id :: nat
  t_seller_id :: nat
  t_instrument :: string
  t_price :: rat
  t_quantity :: rat
  total_amount :: rat
  t_fee :: rat

record advertisement =
  ad_user_id :: nat
  ad_type :: OrderType
  ad_currency :: string
  ad_fiat_currency :: string
  ad_price :: rat
  min_limit :: rat
  max_limit :: rat
  available_amount :: rat
  payment_methods :: "string list"
  payment_time_limit :: int
  is_active :: bool
  ad_created_at :: int

record p2p_trade =
  advertisement_id :: nat
  buyer_id :: nat
  seller_id :: nat
  p_amount :: rat
  p_price :: rat
  total_fiat :: rat
  p_currency :: string
  p_fiat_currency :: string
  p_status :: P2PTradeStatus
  payment_method :: string
  escrow_id :: "nat option"
  payment_deadline :: int
  completed_at :: "int option"

record escrow =
  e_amount :: rat
  e_currency :: string
  e_status :: string
  released_at :: "int option"

record dispute =
  d_trade_id :: nat
  filed_by :: nat
  d_status :: DisputeStatus
  resolution :: "string option"
  resolved_by :: "nat option"
  resolved_at :: "int option"

record notification =
  n_user_id :: nat
  n_type :: string

record db =
  wallets :: "wallet list"
  transactions :: "transaction list"
  orders :: "order list"
  trades :: "trade list"
  advertisements :: "advertisement list"
  p2p_trades :: "p2p_trade list"
  escrows :: "escrow list"
  disputes :: "dispute list"
  notifications :: "notification list"

subsection \<open>Queries\<close>

text \<open>\<open>query.filter(Model.id == i).first()\<close>: the row with key \<open>i\<close>, if any.\<close>

definition get_row :: "'a list \<Rightarrow> nat \<Rightarrow> 'a option" where
  "get_row xs i = (if i < length xs then Some (xs ! i) else None)"

text \<open>\<open>query.filter(P).first()\<close>: the key of the first row that satisfies \<open>P\<close>.\<close>

fun first_key :: "('a \<Rightarrow> bool) \<Rightarrow> 'a list \<Rightarrow> nat option" where
  "first_key P [] = None"
| "first_key P (x # xs) = (if P x then Some 0 else map_option Suc (first_key P xs))"

text \<open>
  \<open>db.query(Wallet).filter(Wallet.user_id == u, Wallet.currency == c).first()\<close>
\<close>

definition find_wallet :: "wallet list \<Rightarrow> nat \<Rightarrow> string \<Rightarrow> nat option" where
  "find_wallet ws u c = first_key (\<lambda>w. w_user_id w = u \<and> w_currency w = c) ws"

text \<open>\<open>instrument.split("/")\<close>, as Python's \<open>str.split\<close> with a separator.\<close>

fun split_on :: "char \<Rightarrow> string \<Rightarrow> string list" where
  "split_on sep [] = [[]]"
| "split_on sep (c # cs) =
     (if c = sep then [] # split_on sep cs
      else (case split_on sep cs of
              [] \<Rightarrow> [[c]]
            | p # ps \<Rightarrow> (c # p) # ps))"

text \<open>
  \<open>base_currency, quote_currency = instrument.split("/")\<close>: the unpacking raises
  \<open>ValueError\<close> unless the split has exactly two parts.
\<close>

definition split_instrument :: "string \<Rightarrow> (string \<times> string) option" where
  "split_instrument s =
     (case split_on (CHR ''/'') s of
        [b, q] \<Rightarrow> Some (b, q)
      | _ \<Rightarrow> None)"

section \<open>Order book: settlement\<close>

text \<open>\<open>settings.TRADING_FEE_PERCENTAGE\<close> of \<open>config.py\<close> (0.1 per cent).\<close>

definition TRADING_FEE_PERCENTAGE :: rat where
  "TRADING_FEE_PERCENTAGE = 1 / 10"

text \<open>
  \<open>execute_trade_settlement\<close> of \<open>routers/orderbook.py\<close>, one definition per block of the
  function. Each block looks its wallet up, changes one balance and adds one
  \<open>Transaction\<close>; a missing wallet skips the block. The descriptions of the transactions
  are formatted strings and are not kept, but the divisions evaluated while formatting
  them are: a \<open>Decimal\<close> division by zero raises.
\<close>

definition settle_buyer_quote :: "nat \<Rightarrow> string \<Rightarrow> rat \<Rightarrow> rat \<Rightarrow> db \<Rightarrow> error + db" where
  "settle_buyer_quote buyer quote_currency quantity amount d =
     (case find_wallet (wallets d) buyer quote_currency of
        None \<Rightarrow> Inr d
      | Some i \<Rightarrow>
          if quantity = 0 then Inl DecimalException
          else Inr (d\<lparr>wallets := (wallets d)[i := (wallets d ! i)
                          \<lparr>locked_balance := locked_balance (wallets d ! i) - amount\<rparr>],
                      transactions := transactions d @
                        [\<lparr>wallet_id = i, tx_type = TRADE, tx_amount = - amount,
                          tx_currency = quote_currency, tx_status = ''COMPLETED'',
                          reference_id = None\<rparr>]\<rparr>))"

definition settle_buyer_base :: "nat \<Rightarrow> string \<Rightarrow> rat \<Rightarrow> rat \<Rightarrow> rat \<Rightarrow> db \<Rightarrow> error + db" where
  "settle_buyer_base buyer base_currency quantity amount fee d =
     (case find_wallet (wallets d) buyer base_currency of
        None \<Rightarrow> Inr d
      | Some i \<Rightarrow>
          if amount = 0 then Inl DecimalException
          else
            let received_quantity = quantity - (quantity * fee / amount) in
            Inr (d\<lparr>wallets := (wallets d)[i := (wallets d ! i)
                          \<lparr>available_balance := available_balance (wallets d ! i) + received_quantity\<rparr>],
                      transactions := transactions d @
                        [\<lparr>wallet_id = i, tx_type = TRADE, tx_amount = received_quantity,
                          tx_currency = base_currency, tx_status = ''COMPLETED'',
                          reference_id = None\<rparr>]\<rparr>))"

definition settle_seller_base :: "nat \<Rightarrow> string \<Rightarrow> rat \<Rightarrow> db \<Rightarrow> error + db" where
  "settle_seller_base seller base_currency quantity d =
     (case find_wallet (wallets d) seller base_currency of
        None \<Rightarrow> Inr d
      | Some i \<Rightarrow>
          if quantity = 0 then Inl DecimalException
          else Inr (d\<lparr>wallets := (wallets d)[i := (wallets d ! i)
                          \<lparr>locked_balance := locked_balance (wallets d ! i) - quantity\<rparr>],
                      transactions := transactions d @
                        [\<lparr>wallet_id = i, tx_type = TRADE, tx_amount = - quantity,
                          tx_currency = base_currency, tx_status = ''COMPLETED'',
                          reference_id = None\<rparr>]\<rparr>))"

definition settle_seller_quote :: "nat \<Rightarrow> string \<Rightarrow> rat \<Rightarrow> rat \<Rightarrow> db \<Rightarrow> error + db" where
  "settle_seller_quote seller quote_currency amount fee d =
     (case find_wallet (wallets d) seller quote_currency of
        None \<Rightarrow> Inr d
      | Some i \<Rightarrow>
          let received_amount = amount - fee in
          Inr (d\<lparr>wallets := (wallets d)[i := (wallets d ! i)
                        \<lparr>available_balance := available_balance (wallets d ! i) + received_amount\<rparr>],
                    transactions := transactions d @
                      [\<lparr>wallet_id = i, tx_type = TRADE, tx_amount = received_amount,
                        tx_currency = quote_currency, tx_status = ''COMPLETED'',
                        reference_id = None\<rparr>]\<rparr>))"

text \<open>Sequencing of steps that may raise.\<close>

definition and_then :: "error + 'a \<Rightarrow> ('a \<Rightarrow> error + 'b) \<Rightarrow> error + 'b" where
  "and_then r f = (case r of Inl e \<Rightarrow> Inl e | Inr x \<Rightarrow> f x)"

definition execute_trade_settlement ::
  "nat \<Rightarrow> nat \<Rightarrow> string \<Rightarrow> string \<Rightarrow> rat \<Rightarrow> rat \<Rightarrow> rat \<Rightarrow> db \<Rightarrow> error + db" where
  "execute_trade_settlement buyer seller base_currency quote_currency quantity amount fee d =
     and_then (settle_buyer_quote buyer quote_currency quantity amount d) (\<lambda>d1.
     and_then (settle_buyer_base buyer base_currency quantity amount fee d1) (\<lambda>d2.
     and_then (settle_seller_base seller base_currency quantity d2) (\<lambda>d3.
     settle_seller_quote seller quote_currency amount fee d3)))"

section \<open>Order book: matching\<close>

text \<open>\<open>OrderBookOrder.status.in_([OrderStatus.PENDING, OrderStatus.PARTIALLY_FILLED])\<close>\<close>

definition is_open :: "order \<Rightarrow> bool" where
  "is_open m = (o_status m = PENDING \<or> o_status m = PARTIALLY_FILLED)"

text \<open>
  \<open>if order.price:\<close> is the truth value of an optional \<open>Decimal\<close>: false for \<open>None\<close> and
  for zero.
\<close>

definition truthy :: "rat option \<Rightarrow> bool" where
  "truthy p = (case p of None \<Rightarrow> False | Some x \<Rightarrow> x \<noteq> 0)"

text \<open>
  The SQL comparisons \<open>OrderBookOrder.price <= p\<close> and \<open>OrderBookOrder.price >= p\<close>:
  a row whose price is NULL satisfies neither.
\<close>

definition sql_le :: "rat option \<Rightarrow> rat option \<Rightarrow> bool" where
  "sql_le a b = (case (a, b) of (Some x, Some y) \<Rightarrow> x \<le> y | _ \<Rightarrow> False)"

definition sql_ge :: "rat option \<Rightarrow> rat option \<Rightarrow> bool" where
  "sql_ge a b = (case (a, b) of (Some x, Some y) \<Rightarrow> x \<ge> y | _ \<Rightarrow> False)"

text \<open>
  The sort keys of \<open>order_by(OrderBookOrder.price, OrderBookOrder.created_at)\<close> and of
  \<open>order_by(desc(OrderBookOrder.price), OrderBookOrder.created_at)\<close>. The configured
  database is SQLite, where NULL sorts before every value (so first in ascending and last
  in descending order). Rows that agree on the key keep the order of their primary keys.
\<close>

definition asc_key :: "order \<Rightarrow> (nat \<times> rat) \<times> int" where
  "asc_key m = ((case o_price m of None \<Rightarrow> (0, 0) | Some p \<Rightarrow> (1, p)), o_created_at m)"

definition desc_key :: "order \<Rightarrow> (nat \<times> rat) \<times> int" where
  "desc_key m = ((case o_price m of None \<Rightarrow> (1, 0) | Some p \<Rightarrow> (0, - p)), o_created_at m)"

text \<open>The query of \<open>match_order\<close>: the keys of the candidate rows, in visiting order.\<close>

definition matching_orders :: "order list \<Rightarrow> nat \<Rightarrow> nat list" where
  "matching_orders os oid =
     (let order = os ! oid in
      if order_type order = BUY then
        sort_key (\<lambda>i. asc_key (os ! i))
          (filter (\<lambda>i. o_instrument (os ! i) = o_instrument order
                      \<and> order_type (os ! i) = SELL
                      \<and> is_open (os ! i)
                      \<and> i \<noteq> oid
                      \<and> (if truthy (o_price order)
                         then sql_le (o_price (os ! i)) (o_price order) else True))
             [0..<length os])
      else
        sort_key (\<lambda>i. desc_key (os ! i))
          (filter (\<lambda>i. o_instrument (os ! i) = o_instrument order
                      \<and> order_type (os ! i) = BUY
                      \<and> is_open (os ! i)
                      \<and> i \<noteq> oid
                      \<and> (if truthy (o_price order)
                         then sql_ge (o_price (os ! i)) (o_price order) else True))
             [0..<length os]))"

text \<open>
  The status update after a fill:
  \<open>if remaining == 0: FILLED elif remaining < quantity: PARTIALLY_FILLED\<close>.
\<close>

definition update_status :: "order \<Rightarrow> order" where
  "update_status m =
     (if remaining_quantity m = 0 then m\<lparr>o_status := FILLED\<rparr>
      else if remaining_quantity m < o_quantity m then m\<lparr>o_status := PARTIALLY_FILLED\<rparr>
      else m)"

text \<open>
  The body of the loop \<open>for matching_order in matching_orders\<close>, for the aggressor with key
  \<open>oid\<close> and the candidate with key \<open>mid\<close>. The result is \<open>Inl None\<close> when the loop breaks
  (the aggressor has nothing left), \<open>Inl (Some e)\<close> when the iteration raises \<open>e\<close>, and the
  committed database otherwise. The multiplication \<open>trade_quantity * trade_price\<close> raises
  \<open>TypeError\<close> when the resting order has no price.
\<close>

definition match_one :: "nat \<Rightarrow> nat \<Rightarrow> db \<Rightarrow> error option + db" where
  "match_one oid mid d =
     (let order = orders d ! oid; matching_order = orders d ! mid in
      if remaining_quantity order \<le> 0 then Inl None
      else
        let trade_quantity = min (remaining_quantity order) (remaining_quantity matching_order) in
        case o_price matching_order of
          None \<Rightarrow> Inl (Some TypeError)
        | Some trade_price \<Rightarrow>
            let trade_amount = trade_quantity * trade_price;
                fee = trade_amount * (TRADING_FEE_PERCENTAGE / 100);
                order' = update_status
                  (order\<lparr>remaining_quantity := remaining_quantity order - trade_quantity\<rparr>);
                matching_order' = update_status
                  (matching_order\<lparr>remaining_quantity :=
                     remaining_quantity matching_order - trade_quantity\<rparr>)
            in
            case split_instrument (o_instrument order) of
              None \<Rightarrow> Inl (Some ValueError)
            | Some (base_currency, quote_currency) \<Rightarrow>
                let buyer = (if order_type order = BUY then o_user_id order
                             else o_user_id matching_order);
                    seller = (if order_type order = BUY then o_user_id matching_order
                              else o_user_id order);
                    d1 = d\<lparr>orders := (orders d)[oid := order', mid := matching_order'],
                           trades := trades d @
                             [\<lparr>t_order_id = oid, t_buyer_id = buyer, t_seller_id = seller,
                               t_instrument = o_instrument order, t_price = trade_price,
                               t_quantity = trade_quantity, total_amount = trade_amount,
                               t_fee = fee\<rparr>]\<rparr>
                in
                case execute_trade_settlement buyer seller base_currency quote_currency
                       trade_quantity trade_amount fee d1 of
                  Inl e \<Rightarrow> Inl (Some e)
                | Inr d2 \<Rightarrow> Inr d2)"

text \<open>
  The loop. Every iteration ends with a commit, so a break or an exception leaves the
  database as the last completed iteration left it; the result is that database and the
  exception, if any.
\<close>

fun execute_matches :: "nat \<Rightarrow> nat list \<Rightarrow> db \<Rightarrow> db \<times> error option" where
  "execute_matches oid [] d = (d, None)"
| "execute_matches oid (mid # rest) d =
     (case match_one oid mid d of
        Inl stop \<Rightarrow> (d, stop)
      | Inr d2 \<Rightarrow> execute_matches oid rest d2)"

definition match_order :: "nat \<Rightarrow> db \<Rightarrow> db \<times> error option" where
  "match_order oid d =
     (case get_row (orders d) oid of
        None \<Rightarrow> (d, None)
      | Some order \<Rightarrow>
          if remaining_quantity order \<le> 0 then (d, None)
          else execute_matches oid (matching_orders (orders d) oid) d)"

section \<open>Order book: submission and cancellation\<close>

text \<open>The request body \<open>OrderCreate\<close>.\<close>

record order_create =
  oc_instrument :: string
  oc_order_type :: string
  oc_order_subtype :: string
  oc_price :: "rat option"
  oc_quantity :: rat

text \<open>The enum constructors \<open>OrderType(s)\<close> and \<open>OrderBookOrderType(s)\<close>.\<close>

definition parse_OrderType :: "string \<Rightarrow> OrderType option" where
  "parse_OrderType s =
     (if s = ''BUY'' then Some BUY else if s = ''SELL'' then Some SELL else None)"

definition parse_OrderBookOrderType :: "string \<Rightarrow> OrderBookOrderType option" where
  "parse_OrderBookOrderType s =
     (if s = ''MARKET'' then Some MARKET
      else if s = ''LIMIT'' then Some LIMIT
      else if s = ''STOP_LOSS'' then Some STOP_LOSS
      else None)"

text \<open>
  \<open>create_order\<close> up to its first commit: validation, the balance check, the lock and the
  insertion of the order. The result is the new database and the key of the new order.
  An error leaves the database unchanged (nothing has been committed).
\<close>

definition admit_order :: "int \<Rightarrow> nat \<Rightarrow> order_create \<Rightarrow> db \<Rightarrow> error + (db \<times> nat)" where
  "admit_order now user order_data d =
     (if oc_order_subtype order_data = ''LIMIT'' \<and> oc_price order_data = None
      then Inl (HTTP_400_BAD_REQUEST ''Price required for limit orders'')
      else if (case oc_price order_data of None \<Rightarrow> False | Some p \<Rightarrow> p \<le> 0)
      then Inl (HTTP_400_BAD_REQUEST ''Price must be greater than 0'')
      else if oc_quantity order_data \<le> 0
      then Inl (HTTP_400_BAD_REQUEST ''Quantity must be greater than 0'')
      else case split_instrument (oc_instrument order_data) of
        None \<Rightarrow> Inl (HTTP_400_BAD_REQUEST ''Invalid instrument format. Use format: BTC/USD'')
      | Some (base_currency, quote_currency) \<Rightarrow>
          let locked =
            (if oc_order_type order_data = ''BUY'' then
               let required_amount = oc_quantity order_data *
                     (case oc_price order_data of None \<Rightarrow> 0 | Some p \<Rightarrow> p) in
               (case find_wallet (wallets d) user quote_currency of
                  None \<Rightarrow> Inl (HTTP_400_BAD_REQUEST (''Insufficient '' @ quote_currency @ '' balance''))
                | Some i \<Rightarrow>
                    if available_balance (wallets d ! i) < required_amount
                    then Inl (HTTP_400_BAD_REQUEST (''Insufficient '' @ quote_currency @ '' balance''))
                    else Inr ((wallets d)[i := (wallets d ! i)
                           \<lparr>available_balance := available_balance (wallets d ! i) - required_amount,
                            locked_balance := locked_balance (wallets d ! i) + required_amount\<rparr>]))
             else
               (case find_wallet (wallets d) user base_currency of
                  None \<Rightarrow> Inl (HTTP_400_BAD_REQUEST (''Insufficient '' @ base_currency @ '' balance''))
                | Some i \<Rightarrow>
                    if available_balance (wallets d ! i) < oc_quantity order_data
                    then Inl (HTTP_400_BAD_REQUEST (''Insufficient '' @ base_currency @ '' balance''))
                    else Inr ((wallets d)[i := (wallets d ! i)
                           \<lparr>available_balance := available_balance (wallets d ! i) - oc_quantity order_data,
                            locked_balance := locked_balance (wallets d ! i) + oc_quantity order_data\<rparr>])))
          in
          case locked of
            Inl e \<Rightarrow> Inl e
          | Inr ws \<Rightarrow>
              (case (parse_OrderType (oc_order_type order_data),
                     parse_OrderBookOrderType (oc_order_subtype order_data)) of
                 (Some ot, Some st) \<Rightarrow>
                   Inr (d\<lparr>wallets := ws,
                          orders := orders d @
                            [\<lparr>o_user_id = user, o_instrument = oc_instrument order_data,
                              order_type = ot, order_subtype = st,
                              o_price = (if truthy (oc_price order_data)
                                         then oc_price order_data else None),
                              o_quantity = oc_quantity order_data,
                              remaining_quantity = oc_quantity order_data,
                              o_status = PENDING, o_created_at = now\<rparr>]\<rparr>,
                        length (orders d))
               | _ \<Rightarrow> Inl ValueError))"

text \<open>
  \<open>create_order\<close>: admission, then \<open>match_order\<close> inside \<open>try: ... except Exception\<close>, which
  prints the exception and goes on.
\<close>

definition create_order :: "int \<Rightarrow> nat \<Rightarrow> order_create \<Rightarrow> db \<Rightarrow> error + db" where
  "create_order now user order_data d =
     (case admit_order now user order_data d of
        Inl e \<Rightarrow> Inl e
      | Inr (d1, oid) \<Rightarrow> Inr (fst (match_order oid d1)))"

text \<open>\<open>cancel_order\<close>. An error leaves the database unchanged.\<close>

definition cancel_order :: "nat \<Rightarrow> nat \<Rightarrow> db \<Rightarrow> error + db" where
  "cancel_order order_id user d =
     (case get_row (orders d) order_id of
        None \<Rightarrow> Inl (HTTP_404_NOT_FOUND ''Order not found'')
      | Some order \<Rightarrow>
          if o_user_id order \<noteq> user then Inl (HTTP_404_NOT_FOUND ''Order not found'')
          else if \<not> is_open order
          then Inl (HTTP_400_BAD_REQUEST ''Can only cancel pending or partially filled orders'')
          else case split_instrument (o_instrument order) of
            None \<Rightarrow> Inl ValueError
          | Some (base_currency, quote_currency) \<Rightarrow>
              let unlocked =
                (if order_type order = BUY then
                   (case o_price order of
                      None \<Rightarrow> Inl TypeError
                    | Some p \<Rightarrow>
                        let locked_amount = remaining_quantity order * p in
                        (case find_wallet (wallets d) user quote_currency of
                           None \<Rightarrow> Inr (wallets d)
                         | Some i \<Rightarrow> Inr ((wallets d)[i := (wallets d ! i)
                             \<lparr>locked_balance := locked_balance (wallets d ! i) - locked_amount,
                              available_balance := available_balance (wallets d ! i) + locked_amount\<rparr>])))
                 else
                   (case find_wallet (wallets d) user base_currency of
                      None \<Rightarrow> Inr (wallets d)
                    | Some i \<Rightarrow> Inr ((wallets d)[i := (wallets d ! i)
                        \<lparr>locked_balance := locked_balance (wallets d ! i) - remaining_quantity order,
                         available_balance := available_balance (wallets d ! i) + remaining_quantity order\<rparr>])))
              in
              case unlocked of
                Inl e \<Rightarrow> Inl e
              | Inr ws \<Rightarrow>
                  Inr (d\<lparr>wallets := ws,
                         orders := (orders d)[order_id := order\<lparr>o_status := CANCELLED\<rparr>]\<rparr>))"

section \<open>P2P trades and escrow\<close>

text \<open>
  \<open>db.query(Escrow).filter(Escrow.id == trade.escrow_id).first()\<close>; a trade without an
  escrow key finds no row.
\<close>

definition find_escrow :: "db \<Rightarrow> p2p_trade \<Rightarrow> nat option" where
  "find_escrow d t =
     (case escrow_id t of
        None \<Rightarrow> None
      | Some e \<Rightarrow> if e < length (escrows d) then Some e else None)"

text \<open>The request body \<open>P2PTradeCreate\<close>; the amount is in fiat currency.\<close>

record p2p_trade_create =
  tc_advertisement_id :: nat
  tc_amount :: rat
  tc_payment_method :: string

text \<open>
  \<open>initiate_trade\<close> of \<open>routers/p2p.py\<close>. Details of errors that format a \<open>Decimal\<close> are
  shortened to their constant part.
\<close>

definition initiate_trade :: "int \<Rightarrow> nat \<Rightarrow> p2p_trade_create \<Rightarrow> db \<Rightarrow> error + db" where
  "initiate_trade now user trade_data d =
     (case get_row (advertisements d) (tc_advertisement_id trade_data) of
        None \<Rightarrow> Inl (HTTP_404_NOT_FOUND ''Advertisement not found or inactive'')
      | Some ad \<Rightarrow>
          if \<not> is_active ad then Inl (HTTP_404_NOT_FOUND ''Advertisement not found or inactive'')
          else if ad_user_id ad = user
          then Inl (HTTP_400_BAD_REQUEST ''Cannot trade with your own advertisement'')
          else
            let fiat_amount = tc_amount trade_data in
            if fiat_amount < min_limit ad \<or> fiat_amount > max_limit ad
            then Inl (HTTP_400_BAD_REQUEST ''Amount must be between'')
            else if ad_price ad = 0 then Inl DecimalException
            else
              let crypto_amount = fiat_amount / ad_price ad in
              if crypto_amount > available_amount ad
              then Inl (HTTP_400_BAD_REQUEST ''Insufficient crypto available. Maximum:'')
              else
                let buyer = (if ad_type ad = SELL then user else ad_user_id ad);
                    seller = (if ad_type ad = SELL then ad_user_id ad else user);
                    new_escrow = \<lparr>e_amount = crypto_amount, e_currency = ad_currency ad,
                                  e_status = ''LOCKED'', released_at = None\<rparr>
                in
                case find_wallet (wallets d) seller (ad_currency ad) of
                  None \<Rightarrow> Inl (HTTP_400_BAD_REQUEST ''Seller has insufficient balance'')
                | Some i \<Rightarrow>
                    if available_balance (wallets d ! i) < crypto_amount
                    then Inl (HTTP_400_BAD_REQUEST ''Seller has insufficient balance'')
                    else
                      let new_trade =
                            \<lparr>advertisement_id = tc_advertisement_id trade_data,
                             buyer_id = buyer, seller_id = seller, p_amount = crypto_amount,
                             p_price = ad_price ad, total_fiat = fiat_amount,
                             p_currency = ad_currency ad, p_fiat_currency = ad_fiat_currency ad,
                             p_status = P2P_PENDING,
                             payment_method = tc_payment_method trade_data,
                             escrow_id = Some (length (escrows d)),
                             payment_deadline = now + 60 * payment_time_limit ad,
                             completed_at = None\<rparr>;
                          ad1 = ad\<lparr>available_amount := available_amount ad - crypto_amount\<rparr>;
                          ad2 = (if available_amount ad1 \<le> 0 then ad1\<lparr>is_active := False\<rparr> else ad1)
                      in
                      Inr (d\<lparr>escrows := escrows d @ [new_escrow],
                             wallets := (wallets d)[i := (wallets d ! i)
                               \<lparr>available_balance := available_balance (wallets d ! i) - crypto_amount,
                                locked_balance := locked_balance (wallets d ! i) + crypto_amount\<rparr>],
                             p2p_trades := p2p_trades d @ [new_trade],
                             advertisements :=
                               (advertisements d)[tc_advertisement_id trade_data := ad2]\<rparr>))"

text \<open>\<open>mark_payment_sent\<close>\<close>

definition mark_payment_sent :: "nat \<Rightarrow> nat \<Rightarrow> db \<Rightarrow> error + db" where
  "mark_payment_sent trade_id user d =
     (case get_row (p2p_trades d) trade_id of
        None \<Rightarrow> Inl (HTTP_404_NOT_FOUND ''Trade not found'')
      | Some t \<Rightarrow>
          if buyer_id t \<noteq> user then Inl (HTTP_404_NOT_FOUND ''Trade not found'')
          else if p_status t \<noteq> P2P_PENDING
          then Inl (HTTP_400_BAD_REQUEST ''Trade is not in pending status'')
          else Inr (d\<lparr>p2p_trades := (p2p_trades d)[trade_id := t\<lparr>p_status := PAYMENT_SENT\<rparr>]\<rparr>))"

text \<open>
  \<open>confirm_payment\<close>, in the steps of the source: the escrow, the crypto wallets (the
  buyer's wallet is created when it is missing), the fiat wallets (the seller's wallet is
  created when it is missing), the transaction rows, the status of the trade.
\<close>

definition release_escrow :: "int \<Rightarrow> p2p_trade \<Rightarrow> db \<Rightarrow> db" where
  "release_escrow now t d =
     (case find_escrow d t of
        None \<Rightarrow> d
      | Some e \<Rightarrow> d\<lparr>escrows := (escrows d)[e := (escrows d ! e)
                      \<lparr>e_status := ''RELEASED'', released_at := Some now\<rparr>]\<rparr>)"

text \<open>
  The transfer of the crypto amount; the result carries the keys of the seller's wallet
  (if any) and of the buyer's wallet.
\<close>

definition transfer_crypto :: "p2p_trade \<Rightarrow> db \<Rightarrow> db \<times> nat option \<times> nat" where
  "transfer_crypto t d =
     (let seller_wallet = find_wallet (wallets d) (seller_id t) (p_currency t);
          buyer_wallet = find_wallet (wallets d) (buyer_id t) (p_currency t);
          ws1 = (case seller_wallet of
                   None \<Rightarrow> wallets d
                 | Some i \<Rightarrow> (wallets d)[i := (wallets d ! i)
                     \<lparr>locked_balance := locked_balance (wallets d ! i) - p_amount t\<rparr>])
      in
      case buyer_wallet of
        Some j \<Rightarrow>
          (d\<lparr>wallets := ws1[j := (ws1 ! j)
               \<lparr>available_balance := available_balance (ws1 ! j) + p_amount t\<rparr>]\<rparr>,
           seller_wallet, j)
      | None \<Rightarrow>
          (d\<lparr>wallets := ws1 @ [\<lparr>w_user_id = buyer_id t, w_currency = p_currency t,
                                  available_balance = p_amount t, locked_balance = 0\<rparr>]\<rparr>,
           seller_wallet, length ws1))"

text \<open>
  The transfer of the fiat amount; the result carries the keys of the buyer's fiat wallet
  (if any) and of the seller's fiat wallet.
\<close>

definition transfer_fiat :: "p2p_trade \<Rightarrow> db \<Rightarrow> db \<times> nat option \<times> nat" where
  "transfer_fiat t d =
     (let seller_fiat_wallet = find_wallet (wallets d) (seller_id t) (p_fiat_currency t);
          buyer_fiat_wallet = find_wallet (wallets d) (buyer_id t) (p_fiat_currency t);
          ws1 = (case buyer_fiat_wallet of
                   None \<Rightarrow> wallets d
                 | Some i \<Rightarrow> (wallets d)[i := (wallets d ! i)
                     \<lparr>available_balance := available_balance (wallets d ! i) - total_fiat t\<rparr>])
      in
      case seller_fiat_wallet of
        Some j \<Rightarrow>
          (d\<lparr>wallets := ws1[j := (ws1 ! j)
               \<lparr>available_balance := available_balance (ws1 ! j) + total_fiat t\<rparr>]\<rparr>,
           buyer_fiat_wallet, j)
      | None \<Rightarrow>
          (d\<lparr>wallets := ws1 @ [\<lparr>w_user_id = seller_id t, w_currency = p_fiat_currency t,
                                  available_balance = total_fiat t, locked_balance = 0\<rparr>]\<rparr>,
           buyer_fiat_wallet, length ws1))"

text \<open>\<open>reference_id=f"P2P_TRADE_{trade.id}"\<close>: the prefix and the key in decimal.\<close>

fun string_of_nat :: "nat \<Rightarrow> string" where
  "string_of_nat n =
     (if n < 10 then [char_of (48 + n)]
      else string_of_nat (n div 10) @ [char_of (48 + n mod 10)])"

definition p2p_reference :: "nat \<Rightarrow> string option" where
  "p2p_reference trade_id = Some (''P2P_TRADE_'' @ string_of_nat trade_id)"

definition p2p_transactions ::
  "nat \<Rightarrow> p2p_trade \<Rightarrow> nat option \<Rightarrow> nat \<Rightarrow> nat option \<Rightarrow> nat \<Rightarrow> transaction list" where
  "p2p_transactions trade_id t seller_wallet buyer_wallet buyer_fiat_wallet seller_fiat_wallet =
     [\<lparr>wallet_id = buyer_wallet, tx_type = P2P_BUY, tx_amount = p_amount t,
       tx_currency = p_currency t, tx_status = ''COMPLETED'',
       reference_id = p2p_reference trade_id\<rparr>]
     @ (case buyer_fiat_wallet of
          None \<Rightarrow> []
        | Some i \<Rightarrow> [\<lparr>wallet_id = i, tx_type = P2P_BUY, tx_amount = - total_fiat t,
                      tx_currency = p_fiat_currency t, tx_status = ''COMPLETED'',
                      reference_id = p2p_reference trade_id\<rparr>])
     @ (case seller_wallet of
          None \<Rightarrow> []
        | Some i \<Rightarrow> [\<lparr>wallet_id = i, tx_type = P2P_SELL, tx_amount = - p_amount t,
                      tx_currency = p_currency t, tx_status = ''COMPLETED'',
                      reference_id = p2p_reference trade_id\<rparr>])
     @ [\<lparr>wallet_id = seller_fiat_wallet, tx_type = P2P_SELL, tx_amount = total_fiat t,
         tx_currency = p_fiat_currency t, tx_status = ''COMPLETED'',
         reference_id = p2p_reference trade_id\<rparr>]"

definition confirm_payment :: "int \<Rightarrow> nat \<Rightarrow> nat \<Rightarrow> db \<Rightarrow> error + db" where
  "confirm_payment now trade_id user d =
     (case get_row (p2p_trades d) trade_id of
        None \<Rightarrow> Inl (HTTP_404_NOT_FOUND ''Trade not found'')
      | Some t \<Rightarrow>
          if seller_id t \<noteq> user then Inl (HTTP_404_NOT_FOUND ''Trade not found'')
          else if p_status t \<noteq> PAYMENT_SENT
          then Inl (HTTP_400_BAD_REQUEST ''Payment must be marked as sent first'')
          else
            let d1 = release_escrow now t d;
                (d2, seller_wallet, buyer_wallet) = transfer_crypto t d1;
                (d3, buyer_fiat_wallet, seller_fiat_wallet) = transfer_fiat t d2
            in
            Inr (d3\<lparr>transactions := transactions d3 @
                       p2p_transactions trade_id t seller_wallet buyer_wallet
                         buyer_fiat_wallet seller_fiat_wallet,
                     p2p_trades := (p2p_trades d3)[trade_id :=
                       t\<lparr>p_status := COMPLETED, completed_at := Some now\<rparr>]\<rparr>))"

text \<open>\<open>cancel_trade\<close>\<close>

definition cancel_trade :: "nat \<Rightarrow> nat \<Rightarrow> db \<Rightarrow> error + db" where
  "cancel_trade trade_id user d =
     (case get_row (p2p_trades d) trade_id of
        None \<Rightarrow> Inl (HTTP_404_NOT_FOUND ''Trade not found'')
      | Some t \<Rightarrow>
          if buyer_id t \<noteq> user \<and> seller_id t \<noteq> user
          then Inl (HTTP_404_NOT_FOUND ''Trade not found'')
          else if p_status t \<noteq> P2P_PENDING \<and> p_status t \<noteq> PAYMENT_SENT
          then Inl (HTTP_400_BAD_REQUEST ''Cannot cancel completed or disputed trade'')
          else
            let es = (case find_escrow d t of
                        None \<Rightarrow> escrows d
                      | Some e \<Rightarrow> (escrows d)[e := (escrows d ! e)\<lparr>e_status := ''REFUNDED''\<rparr>]);
                ws = (case find_wallet (wallets d) (seller_id t) (p_currency t) of
                        None \<Rightarrow> wallets d
                      | Some i \<Rightarrow> (wallets d)[i := (wallets d ! i)
                          \<lparr>locked_balance := locked_balance (wallets d ! i) - p_amount t,
                           available_balance := available_balance (wallets d ! i) + p_amount t\<rparr>]);
                ads = (case get_row (advertisements d) (advertisement_id t) of
                         None \<Rightarrow> advertisements d
                       | Some ad \<Rightarrow>
                           let ad1 = ad\<lparr>available_amount := available_amount ad + p_amount t\<rparr> in
                           (advertisements d)[advertisement_id t :=
                              (if available_amount ad1 > 0 then ad1\<lparr>is_active := True\<rparr> else ad1)])
            in
            Inr (d\<lparr>escrows := es, wallets := ws, advertisements := ads,
                   p2p_trades := (p2p_trades d)[trade_id := t\<lparr>p_status := P2P_CANCELLED\<rparr>]\<rparr>))"

section \<open>Disputes\<close>

text \<open>\<open>create_dispute\<close> of \<open>routers/dispute.py\<close>\<close>

definition create_dispute :: "nat \<Rightarrow> nat \<Rightarrow> db \<Rightarrow> error + db" where
  "create_dispute trade_id user d =
     (case get_row (p2p_trades d) trade_id of
        None \<Rightarrow> Inl (HTTP_404_NOT_FOUND ''Trade not found'')
      | Some t \<Rightarrow>
          if buyer_id t \<noteq> user \<and> seller_id t \<noteq> user
          then Inl (HTTP_403_FORBIDDEN ''You can only file disputes on your own trades'')
          else if p_status t = COMPLETED \<or> p_status t = P2P_CANCELLED
          then Inl (HTTP_400_BAD_REQUEST ''Cannot file dispute on trade'')
          else if first_key (\<lambda>x. d_trade_id x = trade_id) (disputes d) \<noteq> None
          then Inl (HTTP_400_BAD_REQUEST ''Dispute already exists for this trade'')
          else
            Inr (d\<lparr>disputes := disputes d @
                     [\<lparr>d_trade_id = trade_id, filed_by = user, d_status = OPEN,
                       resolution = None, resolved_by = None, resolved_at = None\<rparr>],
                   p2p_trades := (p2p_trades d)[trade_id := t\<lparr>p_status := DISPUTED\<rparr>]\<rparr>))"

text \<open>The request body \<open>DisputeResolve\<close>.\<close>

record dispute_resolve =
  dr_resolution :: string
  refund_to_buyer :: bool
  release_to_seller :: bool

text \<open>\<open>resolve_dispute\<close>\<close>

definition resolve_dispute :: "int \<Rightarrow> nat \<Rightarrow> nat \<Rightarrow> dispute_resolve \<Rightarrow> db \<Rightarrow> error + db" where
  "resolve_dispute now admin dispute_id resolution_data d =
     (case get_row (disputes d) dispute_id of
        None \<Rightarrow> Inl (HTTP_404_NOT_FOUND ''Dispute not found'')
      | Some dispute \<Rightarrow>
          if d_status dispute = RESOLVED
          then Inl (HTTP_400_BAD_REQUEST ''Dispute already resolved'')
          else case get_row (p2p_trades d) (d_trade_id dispute) of
            None \<Rightarrow> Inl (HTTP_404_NOT_FOUND ''Trade not found'')
          | Some t \<Rightarrow>
              let escrow = find_escrow d t;
                  (t', es) =
                    (if refund_to_buyer resolution_data then
                       (t\<lparr>p_status := P2P_CANCELLED\<rparr>,
                        (case escrow of
                           None \<Rightarrow> escrows d
                         | Some e \<Rightarrow> (escrows d)[e := (escrows d ! e)
                             \<lparr>e_status := ''REFUNDED'', released_at := Some now\<rparr>]))
                     else if release_to_seller resolution_data then
                       (t\<lparr>p_status := COMPLETED, completed_at := Some now\<rparr>,
                        (case escrow of
                           None \<Rightarrow> escrows d
                         | Some e \<Rightarrow> (escrows d)[e := (escrows d ! e)
                             \<lparr>e_status := ''RELEASED'', released_at := Some now\<rparr>]))
                     else (t, escrows d))
              in
              Inr (d\<lparr>p2p_trades := (p2p_trades d)[d_trade_id dispute := t'],
                     escrows := es,
                     disputes := (disputes d)[dispute_id := dispute
                       \<lparr>d_status := RESOLVED,
                        resolution := Some (dr_resolution resolution_data),
                        resolved_by := Some admin,
                        resolved_at := Some now\<rparr>]\<rparr>))"

section \<open>Expiration of advertisements\<close>

text \<open>
  \<open>_check_and_expire_ads\<close> of \<open>services/ad_expiration_service.py\<close>. The body of the inner
  loop, for one pending trade of the expired advertisement \<open>ad_id\<close>:
\<close>

definition cancel_pending_trade :: "nat \<Rightarrow> nat \<Rightarrow> db \<Rightarrow> db" where
  "cancel_pending_trade ad_id trade_id d =
     (let t = p2p_trades d ! trade_id;
          d1 = (case find_escrow d t of
                  None \<Rightarrow> d
                | Some e \<Rightarrow>
                    if e_status (escrows d ! e) = ''LOCKED'' then
                      d\<lparr>escrows := (escrows d)[e := (escrows d ! e)\<lparr>e_status := ''REFUNDED''\<rparr>],
                        wallets :=
                          (case find_wallet (wallets d) (seller_id t) (p_currency t) of
                             None \<Rightarrow> wallets d
                           | Some i \<Rightarrow> (wallets d)[i := (wallets d ! i)
                               \<lparr>locked_balance := locked_balance (wallets d ! i) - p_amount t,
                                available_balance := available_balance (wallets d ! i) + p_amount t\<rparr>])\<rparr>
                    else d)
      in
      d1\<lparr>advertisements := (advertisements d1)[ad_id := (advertisements d1 ! ad_id)
             \<lparr>available_amount := available_amount (advertisements d1 ! ad_id) + p_amount t\<rparr>],
          p2p_trades := (p2p_trades d1)[trade_id := t\<lparr>p_status := P2P_CANCELLED\<rparr>],
          notifications := notifications d1 @
            [\<lparr>n_user_id = buyer_id t, n_type = ''TRADE_CANCELLED''\<rparr>,
             \<lparr>n_user_id = seller_id t, n_type = ''TRADE_CANCELLED''\<rparr>]\<rparr>)"

text \<open>The body of the outer loop, for one advertisement that was active at the query.\<close>

definition expire_ad :: "int \<Rightarrow> nat \<Rightarrow> db \<Rightarrow> db" where
  "expire_ad now ad_id d =
     (let ad = advertisements d ! ad_id;
          expiry_time = ad_created_at ad + 60 * payment_time_limit ad
      in
      if now > expiry_time then
        let d1 = d\<lparr>advertisements := (advertisements d)[ad_id := ad\<lparr>is_active := False\<rparr>]\<rparr>;
            pending_trades =
              filter (\<lambda>i. advertisement_id (p2p_trades d1 ! i) = ad_id
                         \<and> (p_status (p2p_trades d1 ! i) = P2P_PENDING
                            \<or> p_status (p2p_trades d1 ! i) = PAYMENT_SENT))
                [0..<length (p2p_trades d1)]
        in fold (cancel_pending_trade ad_id) pending_trades d1
      else d)"

definition check_and_expire_ads :: "int \<Rightarrow> db \<Rightarrow> db" where
  "check_and_expire_ads now d =
     fold (expire_ad now)
       (filter (\<lambda>i. is_active (advertisements d ! i)) [0..<length (advertisements d)]) d"

section \<open>Wallet\<close>

text \<open>\<open>deposit_funds\<close> and \<open>withdraw_funds\<close> of \<open>routers/wallet.py\<close>.\<close>

definition deposit_funds :: "nat \<Rightarrow> string \<Rightarrow> rat \<Rightarrow> db \<Rightarrow> error + db" where
  "deposit_funds user currency amount d =
     (case find_wallet (wallets d) user currency of
        None \<Rightarrow> Inl (HTTP_404_NOT_FOUND (''Wallet for '' @ currency @ '' not found''))
      | Some i \<Rightarrow>
          Inr (d\<lparr>wallets := (wallets d)[i := (wallets d ! i)
                   \<lparr>available_balance := available_balance (wallets d ! i) + amount\<rparr>],
                 transactions := transactions d @
                   [\<lparr>wallet_id = i, tx_type = DEPOSIT, tx_amount = amount,
                     tx_currency = currency, tx_status = ''COMPLETED'',
                     reference_id = None\<rparr>]\<rparr>))"

definition withdraw_funds :: "nat \<Rightarrow> string \<Rightarrow> rat \<Rightarrow> db \<Rightarrow> error + db" where
  "withdraw_funds user currency amount d =
     (case find_wallet (wallets d) user currency of
        None \<Rightarrow> Inl (HTTP_404_NOT_FOUND (''Wallet for '' @ currency @ '' not found''))
      | Some i \<Rightarrow>
          if available_balance (wallets d ! i) < amount
          then Inl (HTTP_400_BAD_REQUEST ''Insufficient balance'')
          else
            Inr (d\<lparr>wallets := (wallets d)[i := (wallets d ! i)
                     \<lparr>available_balance := available_balance (wallets d ! i) - amount\<rparr>],
                   transactions := transactions d @
                     [\<lparr>wallet_id = i, tx_type = WITHDRAWAL, tx_amount = amount,
                       tx_currency = currency, tx_status = ''COMPLETED'',
                       reference_id = None\<rparr>]\<rparr>))"

section \<open>Auxiliary notions for the proofs\<close>


subsection \<open>Example states\<close>

definition empty_db :: db where
  "empty_db = \<lparr>wallets = [], transactions = [], orders = [], trades = [],
     advertisements = [], p2p_trades = [], escrows = [], disputes = [], notifications = []\<rparr>"

definition mk_wallet :: "nat \<Rightarrow> string \<Rightarrow> rat \<Rightarrow> rat \<Rightarrow> wallet" where
  "mk_wallet u c a l =
     \<lparr>w_user_id = u, w_currency = c, available_balance = a, locked_balance = l\<rparr>"


text \<open>
  Three users with a USD and a BTC wallet each: user 1 holds nothing, users 2 and 3 hold
  1 BTC.
\<close>

definition traders_db :: db where
  "traders_db = empty_db\<lparr>wallets :=
     [mk_wallet 1 ''USD'' 0 0, mk_wallet 1 ''BTC'' 0 0,
      mk_wallet 2 ''BTC'' 1 0, mk_wallet 2 ''USD'' 0 0,
      mk_wallet 3 ''BTC'' 1 0, mk_wallet 3 ''USD'' 0 0]\<rparr>"

text \<open>Requests to the order book, and the rows they create.\<close>

definition sell_market_req :: order_create where
  "sell_market_req = \<lparr>oc_instrument = ''BTC/USD'', oc_order_type = ''SELL'',
     oc_order_subtype = ''MARKET'', oc_price = None, oc_quantity = 1\<rparr>"

definition sell_limit_req :: order_create where
  "sell_limit_req = \<lparr>oc_instrument = ''BTC/USD'', oc_order_type = ''SELL'',
     oc_order_subtype = ''LIMIT'', oc_price = Some 100, oc_quantity = 1\<rparr>"

definition buy_market_req :: order_create where
  "buy_market_req = \<lparr>oc_instrument = ''BTC/USD'', oc_order_type = ''BUY'',
     oc_order_subtype = ''MARKET'', oc_price = None, oc_quantity = 1\<rparr>"

definition mk_order :: "nat \<Rightarrow> OrderType \<Rightarrow> OrderBookOrderType \<Rightarrow> rat option \<Rightarrow> rat \<Rightarrow> rat \<Rightarrow> OrderStatus \<Rightarrow> int \<Rightarrow> order" where
  "mk_order u ot st p q r s t = \<lparr>o_user_id = u, o_instrument = ''BTC/USD'', order_type = ot,
     order_subtype = st, o_price = p, o_quantity = q, remaining_quantity = r, o_status = s,
     o_created_at = t\<rparr>"

text \<open>
  The order book after user 2 has submitted a market SELL, then after user 3 has submitted
  a limit SELL at 100, then after user 1 has submitted a market BUY.
\<close>

definition book_1 :: db where
  "book_1 = traders_db\<lparr>
     wallets := (wallets traders_db)[2 := mk_wallet 2 ''BTC'' 0 1],
     orders := [mk_order 2 SELL MARKET None 1 1 PENDING 0]\<rparr>"

definition book_2 :: db where
  "book_2 = book_1\<lparr>
     wallets := (wallets book_1)[4 := mk_wallet 3 ''BTC'' 0 1],
     orders := orders book_1 @ [mk_order 3 SELL LIMIT (Some 100) 1 1 PENDING 1]\<rparr>"

definition book_3 :: db where
  "book_3 = book_2\<lparr>orders := orders book_2 @ [mk_order 1 BUY MARKET None 1 1 PENDING 2]\<rparr>"

text \<open>
  A P2P market: user 2 advertises 1 BTC for sale at 100 USD. User 1 takes the whole
  advertisement, marks the payment as sent, and then either files a dispute, which an
  administrator resolves with a refund, or the seller confirms the payment.
\<close>

definition p2p_db :: db where
  "p2p_db = traders_db\<lparr>advertisements :=
     [\<lparr>ad_user_id = 2, ad_type = SELL, ad_currency = ''BTC'', ad_fiat_currency = ''USD'',
       ad_price = 100, min_limit = 10, max_limit = 1000, available_amount = 1,
       payment_methods = [''Bank Transfer''], payment_time_limit = 30, is_active = True,
       ad_created_at = 0\<rparr>]\<rparr>"

definition take_ad_req :: p2p_trade_create where
  "take_ad_req = \<lparr>tc_advertisement_id = 0, tc_amount = 100, tc_payment_method = ''Bank Transfer''\<rparr>"

definition mk_p2p_trade :: "P2PTradeStatus \<Rightarrow> int option \<Rightarrow> p2p_trade" where
  "mk_p2p_trade s c = \<lparr>advertisement_id = 0, buyer_id = 1, seller_id = 2, p_amount = 1,
     p_price = 100, total_fiat = 100, p_currency = ''BTC'', p_fiat_currency = ''USD'',
     p_status = s, payment_method = ''Bank Transfer'', escrow_id = Some 0,
     payment_deadline = 1805, completed_at = c\<rparr>"

definition p2p_pending :: db where
  "p2p_pending = p2p_db\<lparr>
     wallets := (wallets p2p_db)[2 := mk_wallet 2 ''BTC'' 0 1],
     advertisements := [(advertisements p2p_db ! 0)\<lparr>available_amount := 0, is_active := False\<rparr>],
     p2p_trades := [mk_p2p_trade P2P_PENDING None],
     escrows := [\<lparr>e_amount = 1, e_currency = ''BTC'', e_status = ''LOCKED'', released_at = None\<rparr>]\<rparr>"

definition p2p_sent :: db where
  "p2p_sent = p2p_pending\<lparr>p2p_trades := [mk_p2p_trade PAYMENT_SENT None]\<rparr>"

definition p2p_disputed :: db where
  "p2p_disputed = p2p_sent\<lparr>p2p_trades := [mk_p2p_trade DISPUTED None],
     disputes := [\<lparr>d_trade_id = 0, filed_by = 1, d_status = OPEN, resolution = None,
                   resolved_by = None, resolved_at = None\<rparr>]\<rparr>"

definition refund_req :: dispute_resolve where
  "refund_req = \<lparr>dr_resolution = ''refund'', refund_to_buyer = True, release_to_seller = False\<rparr>"

definition p2p_refunded :: db where
  "p2p_refunded = p2p_disputed\<lparr>p2p_trades := [mk_p2p_trade P2P_CANCELLED None],
     escrows := [\<lparr>e_amount = 1, e_currency = ''BTC'', e_status = ''REFUNDED'', released_at = Some 9\<rparr>],
     disputes := [\<lparr>d_trade_id = 0, filed_by = 1, d_status = RESOLVED, resolution = Some ''refund'',
                   resolved_by = Some 7, resolved_at = Some 9\<rparr>]\<rparr>"

definition p2p_completed :: db where
  "p2p_completed = p2p_sent\<lparr>
     wallets := [mk_wallet 1 ''USD'' (- 100) 0, mk_wallet 1 ''BTC'' 1 0,
                 mk_wallet 2 ''BTC'' 0 0, mk_wallet 2 ''USD'' 100 0,
                 mk_wallet 3 ''BTC'' 1 0, mk_wallet 3 ''USD'' 0 0],
     transactions :=
       [\<lparr>wallet_id = 1, tx_type = P2P_BUY, tx_amount = 1, tx_currency = ''BTC'',
         tx_status = ''COMPLETED'', reference_id = Some ''P2P_TRADE_0''\<rparr>,
        \<lparr>wallet_id = 0, tx_type = P2P_BUY, tx_amount = - 100, tx_currency = ''USD'',
         tx_status = ''COMPLETED'', reference_id = Some ''P2P_TRADE_0''\<rparr>,
        \<lparr>wallet_id = 2, tx_type = P2P_SELL, tx_amount = - 1, tx_currency = ''BTC'',
         tx_status = ''COMPLETED'', reference_id = Some ''P2P_TRADE_0''\<rparr>,
        \<lparr>wallet_id = 3, tx_type = P2P_SELL, tx_amount = 100, tx_currency = ''USD'',
         tx_status = ''COMPLETED'', reference_id = Some ''P2P_TRADE_0''\<rparr>],
     p2p_trades := [mk_p2p_trade COMPLETED (Some 8)],
     escrows := [\<lparr>e_amount = 1, e_currency = ''BTC'', e_status = ''RELEASED'', released_at = Some 8\<rparr>]\<rparr>"

text \<open>
  The order book after user 2 has submitted a limit SELL of 1 BTC at 100, and after
  user 1, who holds no USD, has then submitted a market BUY of 1 BTC.
\<close>

definition book_sell :: db where
  "book_sell = traders_db\<lparr>
     wallets := (wallets traders_db)[2 := mk_wallet 2 ''BTC'' 0 1],
     orders := [mk_order 2 SELL LIMIT (Some 100) 1 1 PENDING 0]\<rparr>"

definition book_filled :: db where
  "book_filled = book_sell\<lparr>
     wallets := [mk_wallet 1 ''USD'' 0 (- 100), mk_wallet 1 ''BTC'' (999 / 1000) 0,
                 mk_wallet 2 ''BTC'' 0 0, mk_wallet 2 ''USD'' (999 / 10) 0,
                 mk_wallet 3 ''BTC'' 1 0, mk_wallet 3 ''USD'' 0 0],
     transactions :=
       [\<lparr>wallet_id = 0, tx_type = TRADE, tx_amount = - 100, tx_currency = ''USD'',
         tx_status = ''COMPLETED'', reference_id = None\<rparr>,
        \<lparr>wallet_id = 1, tx_type = TRADE, tx_amount = 999 / 1000, tx_currency = ''BTC'',
         tx_status = ''COMPLETED'', reference_id = None\<rparr>,
        \<lparr>wallet_id = 2, tx_type = TRADE, tx_amount = - 1, tx_currency = ''BTC'',
         tx_status = ''COMPLETED'', reference_id = None\<rparr>,
        \<lparr>wallet_id = 3, tx_type = TRADE, tx_amount = 999 / 10, tx_currency = ''USD'',
         tx_status = ''COMPLETED'', reference_id = None\<rparr>],
     orders := [mk_order 2 SELL LIMIT (Some 100) 1 0 FILLED 0,
                mk_order 1 BUY MARKET None 1 0 FILLED 1],
     trades := [\<lparr>t_order_id = 1, t_buyer_id = 1, t_seller_id = 2, t_instrument = ''BTC/USD'',
                 t_price = 100, t_quantity = 1, total_amount = 100, t_fee = 1 / 10\<rparr>]\<rparr>"

text \<open>A step that changes nothing but wallets and transactions.\<close>

definition ledger_only :: "db \<Rightarrow> db \<Rightarrow> bool" where
  "ledger_only d d' =
     (orders d' = orders d \<and> trades d' = trades d \<and> advertisements d' = advertisements d
      \<and> p2p_trades d' = p2p_trades d \<and> escrows d' = escrows d \<and> disputes d' = disputes d
      \<and> notifications d' = notifications d)"

text \<open>The effect of a fill on an order: the new remaining quantity and status.\<close>

definition fill :: "order \<Rightarrow> rat \<Rightarrow> order" where
  "fill m trade_quantity =
     update_status (m\<lparr>remaining_quantity := remaining_quantity m - trade_quantity\<rparr>)"

text \<open>
  The expiry test of the sweep, \<open>now > ad.created_at + timedelta(minutes=ad.payment_time_limit)\<close>,
  and the two fields of an advertisement it reads.
\<close>

definition expired :: "int \<Rightarrow> advertisement \<Rightarrow> bool" where
  "expired now ad = (now > ad_created_at ad + 60 * payment_time_limit ad)"

definition ad_clock :: "advertisement \<Rightarrow> int \<times> int" where
  "ad_clock ad = (ad_created_at ad, payment_time_limit ad)"

subsection \<open>The P2P state machine\<close>

text \<open>Statuses of a P2P trade after which no operation applies, and those that can still be
  cancelled or completed.\<close>

definition terminal :: "P2PTradeStatus \<Rightarrow> bool" where
  "terminal s = (s = COMPLETED \<or> s = P2P_CANCELLED)"

definition closable :: "P2PTradeStatus \<Rightarrow> bool" where
  "closable s = (s = P2P_PENDING \<or> s = PAYMENT_SENT)"

text \<open>
  The states the system keeps itself in. References are in range and unique (a trade's
  escrow exists and belongs to no other trade; a dispute's trade exists and has no other
  dispute: the \<open>unique=True\<close> of \<open>Dispute.trade_id\<close>); an escrow that is not LOCKED
  belongs to a COMPLETED or CANCELLED trade; a dispute that is not RESOLVED belongs to a
  DISPUTED trade.
\<close>

definition escrow_consistent :: "db \<Rightarrow> bool" where
  "escrow_consistent d =
     ((\<forall>t \<in> {0..<length (p2p_trades d)}.
         case escrow_id (p2p_trades d ! t) of
           None \<Rightarrow> True
         | Some e \<Rightarrow>
             e < length (escrows d)
             \<and> (e_status (escrows d ! e) \<noteq> ''LOCKED'' \<longrightarrow> terminal (p_status (p2p_trades d ! t)))
             \<and> (\<forall>t' \<in> {0..<length (p2p_trades d)}.
                   escrow_id (p2p_trades d ! t') = Some e \<longrightarrow> t' = t))
      \<and> (\<forall>i \<in> {0..<length (disputes d)}.
            d_trade_id (disputes d ! i) < length (p2p_trades d)
            \<and> (d_status (disputes d ! i) \<noteq> RESOLVED \<longrightarrow>
                 p_status (p2p_trades d ! d_trade_id (disputes d ! i)) = DISPUTED)
            \<and> (\<forall>j \<in> {0..<length (disputes d)}.
                  d_trade_id (disputes d ! j) = d_trade_id (disputes d ! i) \<longrightarrow> j = i)))"

text \<open>No escrow disappears, and an escrow that is not LOCKED stays exactly as it is.\<close>

definition escrows_settled :: "db \<Rightarrow> db \<Rightarrow> bool" where
  "escrows_settled d d' =
     (length (escrows d) \<le> length (escrows d')
      \<and> (\<forall>e < length (escrows d).
            e_status (escrows d ! e) \<noteq> ''LOCKED'' \<longrightarrow> escrows d' ! e = escrows d ! e))"

text \<open>Steps that leave the trades, escrows and disputes alone.\<close>

definition p2p_same :: "db \<Rightarrow> db \<Rightarrow> bool" where
  "p2p_same d d' =
     (p2p_trades d' = p2p_trades d \<and> escrows d' = escrows d \<and> disputes d' = disputes d)"

text \<open>Steps that change one trade, without changing its escrow key, and at most its escrow.\<close>

definition changes_trade :: "nat \<Rightarrow> db \<Rightarrow> db \<Rightarrow> bool" where
  "changes_trade tid d d' =
     (tid < length (p2p_trades d)
      \<and> length (p2p_trades d') = length (p2p_trades d)
      \<and> (\<forall>j < length (p2p_trades d). j \<noteq> tid \<longrightarrow> p2p_trades d' ! j = p2p_trades d ! j)
      \<and> escrow_id (p2p_trades d' ! tid) = escrow_id (p2p_trades d ! tid)
      \<and> length (escrows d') = length (escrows d)
      \<and> (\<forall>e < length (escrows d).
            escrow_id (p2p_trades d ! tid) \<noteq> Some e \<longrightarrow> escrows d' ! e = escrows d ! e))"

text \<open>
  The operations on P2P trades as requests, each with the time at which it runs. A request
  that fails with an error commits nothing.
\<close>

datatype p2p_op =
  Initiate_trade nat p2p_trade_create
  | Mark_payment_sent nat nat
  | Confirm_payment nat nat
  | Cancel_trade nat nat
  | Create_dispute nat nat
  | Resolve_dispute nat nat dispute_resolve
  | Sweep

definition committed :: "error + db \<Rightarrow> db \<Rightarrow> db" where
  "committed r d = (case r of Inl e \<Rightarrow> d | Inr d' \<Rightarrow> d')"

fun apply_op :: "int \<Rightarrow> p2p_op \<Rightarrow> db \<Rightarrow> db" where
  "apply_op now (Initiate_trade user trade_data) d = committed (initiate_trade now user trade_data d) d"
| "apply_op now (Mark_payment_sent trade_id user) d = committed (mark_payment_sent trade_id user d) d"
| "apply_op now (Confirm_payment trade_id user) d = committed (confirm_payment now trade_id user d) d"
| "apply_op now (Cancel_trade trade_id user) d = committed (cancel_trade trade_id user d) d"
| "apply_op now (Create_dispute trade_id user) d = committed (create_dispute trade_id user d) d"
| "apply_op now (Resolve_dispute admin dispute_id resolution_data) d =
     committed (resolve_dispute now admin dispute_id resolution_data d) d"
| "apply_op now Sweep d = check_and_expire_ads now d"

fun run_ops :: "(int \<times> p2p_op) list \<Rightarrow> db \<Rightarrow> db" where
  "run_ops [] d = d"
| "run_ops ((now, op) # ops) d = run_ops ops (apply_op now op d)"

text \<open>No dispute disappears, and a RESOLVED dispute stays RESOLVED.\<close>

definition resolved_kept :: "db \<Rightarrow> db \<Rightarrow> bool" where
  "resolved_kept d d' =
     (length (disputes d) \<le> length (disputes d')
      \<and> (\<forall>i < length (disputes d).
            d_status (disputes d ! i) = RESOLVED \<longrightarrow> d_status (disputes d' ! i) = RESOLVED))"

definition release_req :: dispute_resolve where
  "release_req = \<lparr>dr_resolution = ''release'', refund_to_buyer = False, release_to_seller = True\<rparr>"

section \<open>Queries: basic facts\<close>

lemma first_key_Some: "first_key P xs = Some i \<Longrightarrow> i < length xs \<and> P (xs ! i)"
  by (induction xs arbitrary: i) (auto split: if_splits)


lemma find_wallet_Some:
  "find_wallet ws u c = Some i \<Longrightarrow>
     i < length ws \<and> w_user_id (ws ! i) = u \<and> w_currency (ws ! i) = c"
  unfolding find_wallet_def by (drule first_key_Some) simp




section \<open>Settlement\<close>








section \<open>Order book: submission, matching and cancellation on the example states\<close>

text \<open>
  Claim C1, at the input where the code fails. Users 2 and 3 have resting SELL orders on
  BTC/USD, the first a market order (no price), the second a limit order at 100. User 1
  submits a market BUY of 1 BTC. The candidates of the matching pass are both SELL orders,
  the one without a price first. The pass raises \<open>TypeError\<close> at that candidate
  (\<open>trade_quantity * trade_price\<close> with \<open>trade_price = None\<close>), \<open>create_order\<close> swallows the
  exception, and the BUY order is left unfilled with no trade, although its remaining
  quantity is 1 and the limit SELL at 100 was a candidate.
\<close>

theorem match_order_unpriced_candidate:
  "create_order 0 2 sell_market_req traders_db = Inr book_1
   \<and> create_order 1 3 sell_limit_req book_1 = Inr book_2
   \<and> admit_order 2 1 buy_market_req book_2 = Inr (book_3, 2)
   \<and> matching_orders (orders book_3) 2 = [0, 1]
   \<and> match_order 2 book_3 = (book_3, Some TypeError)
   \<and> create_order 2 1 buy_market_req book_2 = Inr book_3
   \<and> trades book_3 = []
   \<and> remaining_quantity (orders book_3 ! 2) = 1
   \<and> remaining_quantity (orders book_3 ! 1) = 1"
  by code_simp

text \<open>
  Claim C7, at the input where the code fails. The market BUY of user 1 rests in the book
  with status PENDING and no price. Cancelling it raises \<open>TypeError\<close> at
  \<open>order.remaining_quantity * order.price\<close>: the order is not cancelled and nothing is
  unlocked.
\<close>

theorem cancel_order_market_buy:
  "create_order 2 1 buy_market_req book_2 = Inr book_3
   \<and> o_status (orders book_3 ! 2) = PENDING
   \<and> o_price (orders book_3 ! 2) = None
   \<and> cancel_order 2 1 book_3 = Inl TypeError"
  by code_simp

section \<open>Disputes and balances on the example states\<close>

text \<open>Resolving a dispute never touches a wallet, whatever the decision.\<close>

lemma resolve_dispute_wallets:
  "resolve_dispute now admin dispute_id resolution_data d = Inr d' \<Longrightarrow> wallets d' = wallets d"
  by (auto simp: resolve_dispute_def Let_def split: option.splits if_splits prod.splits)

text \<open>
  Claim C6, at the input where the code fails. User 1 takes the advertisement of user 2
  (1 BTC for 100 USD), which locks 1 BTC of the seller in an escrow; he marks the payment
  as sent and files a dispute. The administrator resolves it with \<open>refund_to_buyer = True\<close>.
  The escrow becomes REFUNDED and the trade CANCELLED, as the claim says, but no wallet
  changes: the seller's 1 BTC stays in his locked balance and his available balance
  stays 0.
\<close>

theorem resolve_dispute_refund_keeps_lock:
  "initiate_trade 5 1 take_ad_req p2p_db = Inr p2p_pending
   \<and> mark_payment_sent 0 1 p2p_pending = Inr p2p_sent
   \<and> create_dispute 0 1 p2p_sent = Inr p2p_disputed
   \<and> e_status (escrows p2p_disputed ! 0) = ''LOCKED''
   \<and> resolve_dispute 9 7 0 refund_req p2p_disputed = Inr p2p_refunded
   \<and> e_status (escrows p2p_refunded ! 0) = ''REFUNDED''
   \<and> p_status (p2p_trades p2p_refunded ! 0) = P2P_CANCELLED
   \<and> find_wallet (wallets p2p_refunded) 2 ''BTC'' = Some 2
   \<and> wallets p2p_disputed ! 2 = mk_wallet 2 ''BTC'' 0 1
   \<and> wallets p2p_refunded ! 2 = mk_wallet 2 ''BTC'' 0 1"
  by code_simp

text \<open>
  Claim C3, at two inputs where the code fails. In the P2P market, the buyer (user 1)
  holds no USD; when the seller confirms the payment, \<open>confirm_payment\<close> subtracts the
  fiat total from the buyer's available USD without a balance check, which leaves it at
  \<open>- 100\<close>. In the order book, user 1 submits a market BUY, for which nothing is locked;
  it matches the resting SELL at 100 and settlement subtracts the notional from the
  buyer's locked USD, which leaves it at \<open>- 100\<close>.
\<close>

theorem negative_balances_reachable:
  "initiate_trade 5 1 take_ad_req p2p_db = Inr p2p_pending
   \<and> mark_payment_sent 0 1 p2p_pending = Inr p2p_sent
   \<and> confirm_payment 8 0 2 p2p_sent = Inr p2p_completed
   \<and> find_wallet (wallets p2p_completed) 1 ''USD'' = Some 0
   \<and> available_balance (wallets p2p_sent ! 0) = 0
   \<and> available_balance (wallets p2p_completed ! 0) = - 100
   \<and> create_order 0 2 sell_limit_req traders_db = Inr book_sell
   \<and> create_order 1 1 buy_market_req book_sell = Inr book_filled
   \<and> find_wallet (wallets book_filled) 1 ''USD'' = Some 0
   \<and> locked_balance (wallets book_sell ! 0) = 0
   \<and> locked_balance (wallets book_filled ! 0) = - 100"
  by code_simp

section \<open>Matching: the trades of a pass\<close>

lemma ledger_only_refl: "ledger_only d d"
  by (simp add: ledger_only_def)

lemma ledger_only_trans: "ledger_only d d1 \<Longrightarrow> ledger_only d1 d2 \<Longrightarrow> ledger_only d d2"
  by (simp add: ledger_only_def)

lemma settle_buyer_quote_frame:
  "settle_buyer_quote b c q a d = Inr d' \<Longrightarrow> ledger_only d d'"
  by (auto simp: settle_buyer_quote_def ledger_only_def split: option.splits if_splits)

lemma settle_buyer_base_frame:
  "settle_buyer_base b c q a f d = Inr d' \<Longrightarrow> ledger_only d d'"
  by (auto simp: settle_buyer_base_def ledger_only_def Let_def split: option.splits if_splits)

lemma settle_seller_base_frame:
  "settle_seller_base b c q d = Inr d' \<Longrightarrow> ledger_only d d'"
  by (auto simp: settle_seller_base_def ledger_only_def split: option.splits if_splits)

lemma settle_seller_quote_frame:
  "settle_seller_quote b c a f d = Inr d' \<Longrightarrow> ledger_only d d'"
  by (auto simp: settle_seller_quote_def ledger_only_def Let_def split: option.splits if_splits)

lemma and_then_Inr: "and_then r f = Inr y \<Longrightarrow> \<exists>x. r = Inr x \<and> f x = Inr y"
  by (cases r) (simp_all add: and_then_def)

lemma settlement_frame:
  assumes "execute_trade_settlement b s bc qc q a f d = Inr d'"
  shows "ledger_only d d'"
proof -
  from assms obtain d1 d2 d3 where
    "settle_buyer_quote b qc q a d = Inr d1" "settle_buyer_base b bc q a f d1 = Inr d2"
    "settle_seller_base s bc q d2 = Inr d3" "settle_seller_quote s qc a f d3 = Inr d'"
    unfolding execute_trade_settlement_def by (blast dest: and_then_Inr)
  then show ?thesis
    by (blast intro: ledger_only_trans settle_buyer_quote_frame settle_buyer_base_frame
          settle_seller_base_frame settle_seller_quote_frame)
qed

lemma match_one_Inr:
  assumes "match_one oid mid d = Inr d2"
  shows "\<exists>p. o_price (orders d ! mid) = Some p
     \<and> 0 < remaining_quantity (orders d ! oid)
     \<and> orders d2 = (orders d)
          [oid := fill (orders d ! oid)
             (min (remaining_quantity (orders d ! oid)) (remaining_quantity (orders d ! mid))),
           mid := fill (orders d ! mid)
             (min (remaining_quantity (orders d ! oid)) (remaining_quantity (orders d ! mid)))]
     \<and> (\<exists>t. trades d2 = trades d @ [t] \<and> t_price t = p \<and> t_order_id t = oid
          \<and> t_quantity t =
             min (remaining_quantity (orders d ! oid)) (remaining_quantity (orders d ! mid))
          \<and> total_amount t = t_quantity t * p)"
  using assms
  by (auto simp: match_one_def Let_def fill_def ledger_only_def
      split: if_splits option.splits prod.splits sum.splits dest!: settlement_frame)


lemma map_update_same: "f y = f (xs ! i) \<Longrightarrow> map f (xs[i := y]) = map f xs"
  by (induction xs arbitrary: i) (auto split: nat.splits)

lemma o_price_fill [simp]: "o_price (fill m q) = o_price m"
  by (simp add: fill_def update_status_def)

lemma match_one_prices:
  assumes "match_one oid mid d = Inr d2"
  shows "map o_price (orders d2) = map o_price (orders d)"
proof -
  let ?q = "min (remaining_quantity (orders d ! oid)) (remaining_quantity (orders d ! mid))"
  let ?xs = "(orders d)[oid := fill (orders d ! oid) ?q]"
  have eq: "orders d2 = ?xs[mid := fill (orders d ! mid) ?q]"
    using match_one_Inr [OF assms] by blast
  have 1: "map o_price ?xs = map o_price (orders d)"
    by (rule map_update_same) simp
  have "map o_price (orders d2) = (map o_price ?xs)[mid := o_price (orders d ! mid)]"
    by (simp add: eq map_update)
  also have "\<dots> = (map o_price (orders d))[mid := o_price (orders d ! mid)]"
    by (simp only: 1)
  also have "\<dots> = map o_price (orders d)"
    by (metis map_update list_update_id)
  finally show ?thesis .
qed

lemma execute_matches_trades:
  assumes "\<forall>m \<in> set ms. m < length (orders d)"
  shows "\<exists>ts. trades (fst (execute_matches oid ms d)) = trades d @ ts
     \<and> length ts \<le> length ms
     \<and> list_all2 (\<lambda>t m. o_price (orders d ! m) = Some (t_price t) \<and> t_order_id t = oid)
          ts (take (length ts) ms)
     \<and> map o_price (orders (fst (execute_matches oid ms d))) = map o_price (orders d)"
  using assms
proof (induction ms arbitrary: d)
  case Nil
  then show ?case by simp
next
  case (Cons mid rest)
  show ?case
  proof (cases "match_one oid mid d")
    case (Inl stop)
    then show ?thesis by simp
  next
    case (Inr d2)
    from match_one_Inr [OF Inr] obtain p t where
      p: "o_price (orders d ! mid) = Some p" and
      t: "trades d2 = trades d @ [t]" "t_price t = p" "t_order_id t = oid"
      by blast
    have pr: "map o_price (orders d2) = map o_price (orders d)"
      by (rule match_one_prices [OF Inr])
    then have len: "length (orders d2) = length (orders d)"
      by (metis length_map)
    have nth: "o_price (orders d2 ! m) = o_price (orders d ! m)" if "m < length (orders d)" for m
      using pr that len by (metis nth_map)
    have "\<forall>m \<in> set rest. m < length (orders d2)"
      using Cons.prems len by simp
    from Cons.IH [OF this] obtain ts where
      ts: "trades (fst (execute_matches oid rest d2)) = trades d2 @ ts"
        "length ts \<le> length rest"
        "list_all2 (\<lambda>t m. o_price (orders d2 ! m) = Some (t_price t) \<and> t_order_id t = oid)
            ts (take (length ts) rest)"
        "map o_price (orders (fst (execute_matches oid rest d2))) = map o_price (orders d2)"
      by blast
    have "list_all2 (\<lambda>t m. o_price (orders d ! m) = Some (t_price t) \<and> t_order_id t = oid)
            ts (take (length ts) rest)"
    proof (rule list.rel_mono_strong [OF ts(3)])
      fix t' m assume "m \<in> set (take (length ts) rest)"
        and "o_price (orders d2 ! m) = Some (t_price t') \<and> t_order_id t' = oid"
      moreover from this have "m < length (orders d)"
        using Cons.prems by (auto dest: in_set_takeD)
      ultimately show "o_price (orders d ! m) = Some (t_price t') \<and> t_order_id t' = oid"
        by (simp add: nth)
    qed
    then have "list_all2 (\<lambda>t m. o_price (orders d ! m) = Some (t_price t) \<and> t_order_id t = oid)
            (t # ts) (take (length (t # ts)) (mid # rest))"
      using p t by simp
    moreover have "trades (fst (execute_matches oid (mid # rest) d)) = trades d @ (t # ts)"
      using Inr ts(1) t(1) by simp
    moreover have "length (t # ts) \<le> length (mid # rest)" using ts(2) by simp
    moreover have "map o_price (orders (fst (execute_matches oid (mid # rest) d))) = map o_price (orders d)"
      using Inr ts(4) pr by simp
    ultimately show ?thesis by blast
  qed
qed

lemma matching_orders_set:
  "set (matching_orders os oid) =
     {i. i < length os \<and> i \<noteq> oid
        \<and> o_instrument (os ! i) = o_instrument (os ! oid)
        \<and> order_type (os ! i) = (if order_type (os ! oid) = BUY then SELL else BUY)
        \<and> is_open (os ! i)
        \<and> (truthy (o_price (os ! oid)) \<longrightarrow>
             (if order_type (os ! oid) = BUY then sql_le (o_price (os ! i)) (o_price (os ! oid))
              else sql_ge (o_price (os ! i)) (o_price (os ! oid))))}"
  by (cases "order_type (os ! oid)") (auto simp: matching_orders_def Let_def)

text \<open>
  Claim C2. The trades that a matching pass for the aggressor \<open>oid\<close> appends to the trade
  table correspond, one by one and in order, to an initial segment of the candidates of
  the pass; each trade carries the price of its candidate, a resting order other than the
  aggressor, and names the aggressor as its order.
\<close>

theorem trade_price_is_resting_price:
  "\<exists>ts. trades (fst (match_order oid d)) = trades d @ ts
      \<and> length ts \<le> length (matching_orders (orders d) oid)
      \<and> list_all2 (\<lambda>t m. m \<noteq> oid \<and> o_price (orders d ! m) = Some (t_price t) \<and> t_order_id t = oid)
           ts (take (length ts) (matching_orders (orders d) oid))"
proof (cases "oid < length (orders d) \<and> 0 < remaining_quantity (orders d ! oid)")
  case False
  then have "match_order oid d = (d, None)"
    by (auto simp: match_order_def get_row_def)
  then show ?thesis by simp
next
  case True
  let ?ms = "matching_orders (orders d) oid"
  have run: "match_order oid d = execute_matches oid ?ms d"
    using True by (auto simp: match_order_def get_row_def)
  have in_range: "\<forall>m \<in> set ?ms. m < length (orders d)"
    by (simp add: matching_orders_set)
  from execute_matches_trades [OF in_range, of oid] obtain ts where
    ts: "trades (fst (execute_matches oid ?ms d)) = trades d @ ts"
      "length ts \<le> length ?ms"
      "list_all2 (\<lambda>t m. o_price (orders d ! m) = Some (t_price t) \<and> t_order_id t = oid)
          ts (take (length ts) ?ms)"
    by blast
  have "\<forall>m \<in> set (take (length ts) ?ms). m \<noteq> oid"
    by (auto simp: matching_orders_set dest!: in_set_takeD)
  then have "list_all2 (\<lambda>t m. m \<noteq> oid \<and> o_price (orders d ! m) = Some (t_price t) \<and> t_order_id t = oid)
          ts (take (length ts) ?ms)"
    by (intro list.rel_mono_strong [OF ts(3)]) simp
  with ts(1,2) run show ?thesis by auto
qed

section \<open>The expiration sweep\<close>

lemma expired_clock: "ad_clock a = ad_clock b \<Longrightarrow> expired now a = expired now b"
  by (simp add: expired_def ad_clock_def)

lemma cancel_pending_trade_ads:
  "map ad_clock (advertisements (cancel_pending_trade ad_id trade_id d)) = map ad_clock (advertisements d)"
  "map is_active (advertisements (cancel_pending_trade ad_id trade_id d)) = map is_active (advertisements d)"
  by (simp_all add: cancel_pending_trade_def Let_def ad_clock_def map_update_same
        split: option.splits)

lemma fold_cancel_pending_trade_ads:
  "map ad_clock (advertisements (fold (cancel_pending_trade ad_id) ts d)) = map ad_clock (advertisements d)
   \<and> map is_active (advertisements (fold (cancel_pending_trade ad_id) ts d)) = map is_active (advertisements d)"
  by (induction ts arbitrary: d) (simp_all add: cancel_pending_trade_ads)

lemma expire_ad_not_expired:
  "\<not> expired now (advertisements d ! i) \<Longrightarrow> expire_ad now i d = d"
  by (simp add: expire_ad_def expired_def Let_def)

lemma expire_ad_clock:
  "map ad_clock (advertisements (expire_ad now i d)) = map ad_clock (advertisements d)"
  by (simp add: expire_ad_def Let_def fold_cancel_pending_trade_ads map_update_same ad_clock_def)

lemma expire_ad_active:
  "map is_active (advertisements (expire_ad now i d)) =
     (if expired now (advertisements d ! i) then (map is_active (advertisements d))[i := False]
      else map is_active (advertisements d))"
  by (simp add: expire_ad_def expired_def Let_def fold_cancel_pending_trade_ads map_update)

lemma fold_expire_ad_ads:
  "length (advertisements (fold (expire_ad now) xs d)) = length (advertisements d)
   \<and> (\<forall>j < length (advertisements d).
        ad_clock (advertisements (fold (expire_ad now) xs d) ! j) = ad_clock (advertisements d ! j)
      \<and> (is_active (advertisements (fold (expire_ad now) xs d) ! j) \<longrightarrow>
           is_active (advertisements d ! j)
           \<and> (j \<in> set xs \<longrightarrow> \<not> expired now (advertisements d ! j))))"
proof (induction xs arbitrary: d)
  case Nil
  then show ?case by simp
next
  case (Cons x xs)
  let ?d1 = "expire_ad now x d"
  have clock: "map ad_clock (advertisements ?d1) = map ad_clock (advertisements d)"
    by (rule expire_ad_clock)
  then have len: "length (advertisements ?d1) = length (advertisements d)"
    by (metis length_map)
  have c: "ad_clock (advertisements ?d1 ! j) = ad_clock (advertisements d ! j)"
    if "j < length (advertisements d)" for j
    using clock len that by (metis nth_map)
  have a: "is_active (advertisements ?d1 ! j) \<longrightarrow>
      is_active (advertisements d ! j) \<and> (j = x \<longrightarrow> \<not> expired now (advertisements d ! j))"
    if "j < length (advertisements d)" for j
  proof -
    have "is_active (advertisements ?d1 ! j) = map is_active (advertisements ?d1) ! j"
      using that len by simp
    also have "\<dots> = (if expired now (advertisements d ! x)
        then (map is_active (advertisements d))[x := False]
        else map is_active (advertisements d)) ! j"
      by (simp only: expire_ad_active)
    finally show ?thesis using that
      by (cases "x < length (advertisements d)")
        (auto simp: nth_list_update list_update_beyond split: if_splits)
  qed
  show ?case
    using Cons.IH [of ?d1] len c a
    by (auto simp: expired_clock [OF c])
qed

lemma fold_id: "(\<forall>x \<in> set xs. f x s = s) \<Longrightarrow> fold f xs s = s"
  by (induction xs) simp_all

text \<open>
  Claim C9. Running the sweep a second time at the same time \<open>now\<close> changes nothing: the
  database after two runs is the database after one run, in every table (advertisements,
  trades, escrows, wallets, notifications). After the first run every advertisement that
  is still active has not expired, so the second run finds nothing to do.
\<close>

theorem sweep_idempotent:
  "check_and_expire_ads now (check_and_expire_ads now d) = check_and_expire_ads now d"
proof -
  let ?xs = "filter (\<lambda>i. is_active (advertisements d ! i)) [0..<length (advertisements d)]"
  let ?d' = "check_and_expire_ads now d"
  have d': "?d' = fold (expire_ad now) ?xs d" by (simp add: check_and_expire_ads_def)
  have facts: "length (advertisements ?d') = length (advertisements d)"
    "\<And>j. j < length (advertisements d) \<Longrightarrow>
        ad_clock (advertisements ?d' ! j) = ad_clock (advertisements d ! j)"
    "\<And>j. j < length (advertisements d) \<Longrightarrow> is_active (advertisements ?d' ! j) \<Longrightarrow>
        is_active (advertisements d ! j) \<and> (j \<in> set ?xs \<longrightarrow> \<not> expired now (advertisements d ! j))"
    using fold_expire_ad_ads [of now ?xs d] unfolding d' by blast+
  have "expire_ad now i ?d' = ?d'"
    if "i \<in> set (filter (\<lambda>i. is_active (advertisements ?d' ! i)) [0..<length (advertisements ?d')])" for i
  proof -
    from that have i: "i < length (advertisements d)" "is_active (advertisements ?d' ! i)"
      using facts(1) by auto
    then have "is_active (advertisements d ! i)" "i \<in> set ?xs \<longrightarrow> \<not> expired now (advertisements d ! i)"
      using facts(3) by blast+
    then have "\<not> expired now (advertisements d ! i)" using i(1) by simp
    then have "\<not> expired now (advertisements ?d' ! i)"
      using expired_clock [OF facts(2) [OF i(1)]] by simp
    then show ?thesis by (rule expire_ad_not_expired)
  qed
  then have "fold (expire_ad now)
      (filter (\<lambda>i. is_active (advertisements ?d' ! i)) [0..<length (advertisements ?d')]) ?d' = ?d'"
    by (intro fold_id) blast
  then show ?thesis by (simp add: check_and_expire_ads_def)
qed

section \<open>Escrow exclusivity\<close>

lemma transfer_crypto_same: "p2p_same d (fst (transfer_crypto t d))"
  by (simp add: transfer_crypto_def p2p_same_def Let_def split: option.splits)

lemma transfer_fiat_same: "p2p_same d (fst (transfer_fiat t d))"
  by (simp add: transfer_fiat_def p2p_same_def Let_def split: option.splits)

lemma confirm_payment_view:
  assumes "confirm_payment now tid u d = Inr d'"
  shows "tid < length (p2p_trades d) \<and> p_status (p2p_trades d ! tid) = PAYMENT_SENT
     \<and> p2p_trades d' = (p2p_trades d)[tid := (p2p_trades d ! tid)
          \<lparr>p_status := COMPLETED, completed_at := Some now\<rparr>]
     \<and> escrows d' = escrows (release_escrow now (p2p_trades d ! tid) d)
     \<and> disputes d' = disputes d"
proof -
  let ?t = "p2p_trades d ! tid"
  let ?d1 = "release_escrow now ?t d"
  let ?d2 = "fst (transfer_crypto ?t ?d1)"
  let ?d3 = "fst (transfer_fiat ?t ?d2)"
  have r: "p2p_trades ?d1 = p2p_trades d" "disputes ?d1 = disputes d"
    by (simp_all add: release_escrow_def split: option.splits)
  have s: "p2p_same ?d1 ?d2" "p2p_same ?d2 ?d3"
    by (rule transfer_crypto_same, rule transfer_fiat_same)
  from assms have 1: "tid < length (p2p_trades d)" "p_status ?t = PAYMENT_SENT"
    by (auto simp: confirm_payment_def get_row_def split: if_splits)
  from assms 1 have "\<exists>txs. d' = ?d3\<lparr>transactions := txs,
       p2p_trades := (p2p_trades ?d3)[tid := ?t\<lparr>p_status := COMPLETED, completed_at := Some now\<rparr>]\<rparr>"
    by (auto simp: confirm_payment_def get_row_def Let_def split: if_splits prod.splits)
  then show ?thesis using 1 r s by (auto simp: p2p_same_def)
qed


lemma escrow_consistent_trade:
  assumes "escrow_consistent d" "t < length (p2p_trades d)" "escrow_id (p2p_trades d ! t) = Some e"
  shows "e < length (escrows d)
     \<and> (e_status (escrows d ! e) \<noteq> ''LOCKED'' \<longrightarrow> terminal (p_status (p2p_trades d ! t)))
     \<and> (\<forall>t' \<in> {0..<length (p2p_trades d)}. escrow_id (p2p_trades d ! t') = Some e \<longrightarrow> t' = t)"
proof -
  from assms(1) have "\<forall>t \<in> {0..<length (p2p_trades d)}.
         case escrow_id (p2p_trades d ! t) of
           None \<Rightarrow> True
         | Some e \<Rightarrow>
             e < length (escrows d)
             \<and> (e_status (escrows d ! e) \<noteq> ''LOCKED'' \<longrightarrow> terminal (p_status (p2p_trades d ! t)))
             \<and> (\<forall>t' \<in> {0..<length (p2p_trades d)}.
                   escrow_id (p2p_trades d ! t') = Some e \<longrightarrow> t' = t)"
    unfolding escrow_consistent_def by (rule conjunct1)
  then have "case escrow_id (p2p_trades d ! t) of
           None \<Rightarrow> True
         | Some e \<Rightarrow>
             e < length (escrows d)
             \<and> (e_status (escrows d ! e) \<noteq> ''LOCKED'' \<longrightarrow> terminal (p_status (p2p_trades d ! t)))
             \<and> (\<forall>t' \<in> {0..<length (p2p_trades d)}.
                   escrow_id (p2p_trades d ! t') = Some e \<longrightarrow> t' = t)"
    using assms(2) by simp
  then show ?thesis by (simp add: assms(3))
qed

lemma escrow_consistent_dispute:
  assumes "escrow_consistent d" "i < length (disputes d)"
  shows "d_trade_id (disputes d ! i) < length (p2p_trades d)
     \<and> (d_status (disputes d ! i) \<noteq> RESOLVED \<longrightarrow>
          p_status (p2p_trades d ! d_trade_id (disputes d ! i)) = DISPUTED)
     \<and> (\<forall>j \<in> {0..<length (disputes d)}.
           d_trade_id (disputes d ! j) = d_trade_id (disputes d ! i) \<longrightarrow> j = i)"
proof -
  from assms(1) have "\<forall>i \<in> {0..<length (disputes d)}.
            d_trade_id (disputes d ! i) < length (p2p_trades d)
            \<and> (d_status (disputes d ! i) \<noteq> RESOLVED \<longrightarrow>
                 p_status (p2p_trades d ! d_trade_id (disputes d ! i)) = DISPUTED)
            \<and> (\<forall>j \<in> {0..<length (disputes d)}.
                  d_trade_id (disputes d ! j) = d_trade_id (disputes d ! i) \<longrightarrow> j = i)"
    unfolding escrow_consistent_def by (rule conjunct2)
  then show ?thesis using assms(2) by simp
qed

lemma escrow_consistentD:
  assumes "escrow_consistent d"
  shows "\<And>t e. t < length (p2p_trades d) \<Longrightarrow> escrow_id (p2p_trades d ! t) = Some e
            \<Longrightarrow> e < length (escrows d)"
    and "\<And>t t' e. t < length (p2p_trades d) \<Longrightarrow> t' < length (p2p_trades d)
            \<Longrightarrow> escrow_id (p2p_trades d ! t) = Some e
            \<Longrightarrow> escrow_id (p2p_trades d ! t') = Some e \<Longrightarrow> t = t'"
    and "\<And>i. i < length (disputes d) \<Longrightarrow> d_trade_id (disputes d ! i) < length (p2p_trades d)"
    and "\<And>i j. i < length (disputes d) \<Longrightarrow> j < length (disputes d)
            \<Longrightarrow> d_trade_id (disputes d ! i) = d_trade_id (disputes d ! j) \<Longrightarrow> i = j"
    and "\<And>t e. t < length (p2p_trades d) \<Longrightarrow> escrow_id (p2p_trades d ! t) = Some e
            \<Longrightarrow> e_status (escrows d ! e) \<noteq> ''LOCKED''
            \<Longrightarrow> terminal (p_status (p2p_trades d ! t))"
    and "\<And>i. i < length (disputes d) \<Longrightarrow> d_status (disputes d ! i) \<noteq> RESOLVED
            \<Longrightarrow> p_status (p2p_trades d ! d_trade_id (disputes d ! i)) = DISPUTED"
proof -
  note T = escrow_consistent_trade [OF assms]
  note X = escrow_consistent_dispute [OF assms]
  show "e < length (escrows d)"
    if "t < length (p2p_trades d)" "escrow_id (p2p_trades d ! t) = Some e" for t e
    using T [OF that] by simp
  show "t = t'"
    if "t < length (p2p_trades d)" "t' < length (p2p_trades d)"
      "escrow_id (p2p_trades d ! t) = Some e" "escrow_id (p2p_trades d ! t') = Some e" for t t' e
    using T [OF that(2,4)] that(1,3) by simp
  show "d_trade_id (disputes d ! i) < length (p2p_trades d)" if "i < length (disputes d)" for i
    using X [OF that] by simp
  show "i = j"
    if "i < length (disputes d)" "j < length (disputes d)"
      "d_trade_id (disputes d ! i) = d_trade_id (disputes d ! j)" for i j
    using X [OF that(2)] that(1,3) by simp
  show "terminal (p_status (p2p_trades d ! t))"
    if "t < length (p2p_trades d)" "escrow_id (p2p_trades d ! t) = Some e"
      "e_status (escrows d ! e) \<noteq> ''LOCKED''" for t e
    using T [OF that(1,2)] that(3) by simp
  show "p_status (p2p_trades d ! d_trade_id (disputes d ! i)) = DISPUTED"
    if "i < length (disputes d)" "d_status (disputes d ! i) \<noteq> RESOLVED" for i
    using X [OF that(1)] that(2) by simp
qed

lemma escrow_consistentI:
  assumes 1: "\<And>t e. t < length (p2p_trades d) \<Longrightarrow> escrow_id (p2p_trades d ! t) = Some e
            \<Longrightarrow> e < length (escrows d)"
    and 2: "\<And>t t' e. t < length (p2p_trades d) \<Longrightarrow> t' < length (p2p_trades d)
            \<Longrightarrow> escrow_id (p2p_trades d ! t) = Some e
            \<Longrightarrow> escrow_id (p2p_trades d ! t') = Some e \<Longrightarrow> t = t'"
    and 3: "\<And>i. i < length (disputes d) \<Longrightarrow> d_trade_id (disputes d ! i) < length (p2p_trades d)"
    and 4: "\<And>i j. i < length (disputes d) \<Longrightarrow> j < length (disputes d)
            \<Longrightarrow> d_trade_id (disputes d ! i) = d_trade_id (disputes d ! j) \<Longrightarrow> i = j"
    and 5: "\<And>t e. t < length (p2p_trades d) \<Longrightarrow> escrow_id (p2p_trades d ! t) = Some e
            \<Longrightarrow> e_status (escrows d ! e) \<noteq> ''LOCKED''
            \<Longrightarrow> terminal (p_status (p2p_trades d ! t))"
    and 6: "\<And>i. i < length (disputes d) \<Longrightarrow> d_status (disputes d ! i) \<noteq> RESOLVED
            \<Longrightarrow> p_status (p2p_trades d ! d_trade_id (disputes d ! i)) = DISPUTED"
  shows "escrow_consistent d"
  unfolding escrow_consistent_def
proof (intro conjI ballI)
  fix t assume t: "t \<in> {0..<length (p2p_trades d)}"
  show "case escrow_id (p2p_trades d ! t) of
           None \<Rightarrow> True
         | Some e \<Rightarrow>
             e < length (escrows d)
             \<and> (e_status (escrows d ! e) \<noteq> ''LOCKED'' \<longrightarrow> terminal (p_status (p2p_trades d ! t)))
             \<and> (\<forall>t' \<in> {0..<length (p2p_trades d)}.
                   escrow_id (p2p_trades d ! t') = Some e \<longrightarrow> t' = t)"
  proof (cases "escrow_id (p2p_trades d ! t)")
    case None
    then show ?thesis by simp
  next
    case (Some e)
    have t': "t < length (p2p_trades d)" using t by simp
    have a: "e < length (escrows d)" using 1 [OF t' Some] .
    have b: "e_status (escrows d ! e) \<noteq> ''LOCKED'' \<longrightarrow> terminal (p_status (p2p_trades d ! t))"
      using 5 [OF t' Some] by blast
    have c: "\<forall>t' \<in> {0..<length (p2p_trades d)}. escrow_id (p2p_trades d ! t') = Some e \<longrightarrow> t' = t"
    proof (intro ballI impI)
      fix k assume "k \<in> {0..<length (p2p_trades d)}" "escrow_id (p2p_trades d ! k) = Some e"
      then show "k = t" using 2 [of k t e] t' Some by simp
    qed
    show ?thesis unfolding Some using a b c by simp
  qed
next
  fix i assume "i \<in> {0..<length (disputes d)}"
  then have i: "i < length (disputes d)" by simp
  show "d_trade_id (disputes d ! i) < length (p2p_trades d)" using 3 [OF i] .
  show "d_status (disputes d ! i) \<noteq> RESOLVED \<longrightarrow>
     p_status (p2p_trades d ! d_trade_id (disputes d ! i)) = DISPUTED"
    using 6 [OF i] by simp
  fix j assume "j \<in> {0..<length (disputes d)}"
  then show "d_trade_id (disputes d ! j) = d_trade_id (disputes d ! i) \<longrightarrow> j = i"
    using 4 [of j i] i by simp
qed

lemma changes_trade_escrow_id:
  assumes "changes_trade tid d d'" "t < length (p2p_trades d)"
  shows "escrow_id (p2p_trades d' ! t) = escrow_id (p2p_trades d ! t)"
  using assms unfolding changes_trade_def by (cases "t = tid") auto

lemma changes_trade_other_escrow:
  assumes inv: "escrow_consistent d" and ch: "changes_trade tid d d'"
    and t: "t < length (p2p_trades d)" "t \<noteq> tid" "escrow_id (p2p_trades d ! t) = Some e"
  shows "escrows d' ! e = escrows d ! e"
proof -
  have tid: "tid < length (p2p_trades d)" using ch by (simp add: changes_trade_def)
  have "escrow_id (p2p_trades d ! tid) \<noteq> Some e"
    using escrow_consistentD(2) [OF inv t(1) tid t(3)] t(2) by blast
  moreover have "e < length (escrows d)" using escrow_consistentD(1) [OF inv t(1,3)] .
  ultimately show ?thesis using ch by (simp add: changes_trade_def)
qed

lemma changes_trade_settled:
  assumes inv: "escrow_consistent d" and ch: "changes_trade tid d d'"
    and b: "\<not> terminal (p_status (p2p_trades d ! tid))
            \<or> (\<forall>e. escrow_id (p2p_trades d ! tid) = Some e \<longrightarrow> escrows d' ! e = escrows d ! e)"
  shows "escrows_settled d d'"
proof -
  have tid: "tid < length (p2p_trades d)" using ch by (simp add: changes_trade_def)
  have "escrows d' ! e = escrows d ! e"
    if e: "e < length (escrows d)" "e_status (escrows d ! e) \<noteq> ''LOCKED''" for e
  proof (cases "escrow_id (p2p_trades d ! tid) = Some e")
    case True
    then have "terminal (p_status (p2p_trades d ! tid))"
      using escrow_consistentD(5) [OF inv tid True e(2)] by simp
    then show ?thesis using b True by blast
  next
    case False
    then show ?thesis using ch e(1) by (simp add: changes_trade_def)
  qed
  moreover have "length (escrows d') = length (escrows d)"
    using ch by (simp add: changes_trade_def)
  ultimately show ?thesis by (simp add: escrows_settled_def)
qed

lemma step_changes_trade:
  assumes inv: "escrow_consistent d"
    and ch: "changes_trade tid d d'"
    and dl: "length (disputes d') = length (disputes d)"
    and dt: "\<And>j. j < length (disputes d) \<Longrightarrow>
               d_trade_id (disputes d' ! j) = d_trade_id (disputes d ! j)"
    and dr: "\<And>j. j < length (disputes d) \<Longrightarrow> d_status (disputes d' ! j) \<noteq> RESOLVED \<Longrightarrow>
               d_status (disputes d ! j) \<noteq> RESOLVED"
    and a: "terminal (p_status (p2p_trades d' ! tid))
            \<or> (\<forall>e. escrow_id (p2p_trades d ! tid) = Some e \<longrightarrow> e_status (escrows d' ! e) = ''LOCKED'')"
    and c: "\<And>j. j < length (disputes d) \<Longrightarrow> d_status (disputes d' ! j) \<noteq> RESOLVED \<Longrightarrow>
               d_trade_id (disputes d ! j) = tid \<Longrightarrow> p_status (p2p_trades d' ! tid) = DISPUTED"
  shows "escrow_consistent d'"
proof (rule escrow_consistentI)
  have tid: "tid < length (p2p_trades d)" and len: "length (p2p_trades d') = length (p2p_trades d)"
    and elen: "length (escrows d') = length (escrows d)"
    using ch by (simp_all add: changes_trade_def)
  note eid = changes_trade_escrow_id [OF ch]
  note D = escrow_consistentD [OF inv]
  show "e < length (escrows d')" if "t < length (p2p_trades d')" "escrow_id (p2p_trades d' ! t) = Some e" for t e
    using that D(1) [of t e] eid [of t] len elen by simp
  show "t = t'" if "t < length (p2p_trades d')" "t' < length (p2p_trades d')"
      "escrow_id (p2p_trades d' ! t) = Some e" "escrow_id (p2p_trades d' ! t') = Some e" for t t' e
    using that D(2) [of t t' e] eid [of t] eid [of t'] len by simp
  show "d_trade_id (disputes d' ! i) < length (p2p_trades d')" if "i < length (disputes d')" for i
    using that D(3) [of i] dl dt [of i] len by simp
  show "i = j" if "i < length (disputes d')" "j < length (disputes d')"
      "d_trade_id (disputes d' ! i) = d_trade_id (disputes d' ! j)" for i j
    using that D(4) [of i j] dl dt [of i] dt [of j] by simp
  show "terminal (p_status (p2p_trades d' ! t))"
    if t: "t < length (p2p_trades d')" "escrow_id (p2p_trades d' ! t) = Some e"
      "e_status (escrows d' ! e) \<noteq> ''LOCKED''" for t e
  proof (cases "t = tid")
    case True
    then show ?thesis using a t eid [of tid] tid by auto
  next
    case False
    have t': "t < length (p2p_trades d)" "escrow_id (p2p_trades d ! t) = Some e"
      using t eid [of t] len by simp_all
    have "escrows d' ! e = escrows d ! e"
      by (rule changes_trade_other_escrow [OF inv ch t'(1) False t'(2)])
    moreover have "p2p_trades d' ! t = p2p_trades d ! t"
      using ch t'(1) False by (simp add: changes_trade_def)
    ultimately show ?thesis using D(5) [OF t'] t(3) by simp
  qed
  show "p_status (p2p_trades d' ! d_trade_id (disputes d' ! i)) = DISPUTED"
    if i: "i < length (disputes d')" "d_status (disputes d' ! i) \<noteq> RESOLVED" for i
  proof -
    have i': "i < length (disputes d)" using i dl by simp
    have un: "d_status (disputes d ! i) \<noteq> RESOLVED" using dr [OF i' i(2)] .
    show ?thesis
    proof (cases "d_trade_id (disputes d ! i) = tid")
      case True
      then show ?thesis using c [OF i' i(2)] dt [OF i'] by simp
    next
      case False
      moreover have "d_trade_id (disputes d ! i) < length (p2p_trades d)"
        using D(3) [OF i'] .
      ultimately have "p2p_trades d' ! d_trade_id (disputes d ! i)
          = p2p_trades d ! d_trade_id (disputes d ! i)"
        using ch by (simp add: changes_trade_def)
      then show ?thesis using D(6) [OF i' un] dt [OF i'] by simp
    qed
  qed
qed

lemma step_new_dispute:
  assumes inv: "escrow_consistent d"
    and tid: "tid < length (p2p_trades d)"
    and nt: "\<not> terminal (p_status (p2p_trades d ! tid))"
    and fresh: "\<And>j. j < length (disputes d) \<Longrightarrow> d_trade_id (disputes d ! j) \<noteq> tid"
    and tr: "p2p_trades d' = (p2p_trades d)[tid := (p2p_trades d ! tid)\<lparr>p_status := DISPUTED\<rparr>]"
    and es: "escrows d' = escrows d"
    and ds: "disputes d' = disputes d @ [x]" "d_trade_id x = tid"
  shows "escrow_consistent d'"
proof (rule escrow_consistentI)
  note D = escrow_consistentD [OF inv]
  have len: "length (p2p_trades d') = length (p2p_trades d)" using tr by simp
  have eid: "escrow_id (p2p_trades d' ! t) = escrow_id (p2p_trades d ! t)"
    if "t < length (p2p_trades d)" for t
    using that tr by (cases "t = tid") simp_all
  have st: "p_status (p2p_trades d' ! t) = (if t = tid then DISPUTED else p_status (p2p_trades d ! t))"
    if "t < length (p2p_trades d)" for t
    using that tr by (cases "t = tid") simp_all
  have dti: "d_trade_id (disputes d' ! i) = (if i < length (disputes d) then d_trade_id (disputes d ! i) else tid)"
    if "i < length (disputes d')" for i
    using that ds by (auto simp: nth_append)
  show "e < length (escrows d')" if "t < length (p2p_trades d')" "escrow_id (p2p_trades d' ! t) = Some e" for t e
    using that D(1) [of t e] eid [of t] len es by simp
  show "t = t'" if "t < length (p2p_trades d')" "t' < length (p2p_trades d')"
      "escrow_id (p2p_trades d' ! t) = Some e" "escrow_id (p2p_trades d' ! t') = Some e" for t t' e
    using that D(2) [of t t' e] eid [of t] eid [of t'] len by simp
  show "d_trade_id (disputes d' ! i) < length (p2p_trades d')" if "i < length (disputes d')" for i
    using dti [OF that] D(3) [of i] tid len by simp
  show "i = j" if "i < length (disputes d')" "j < length (disputes d')"
      "d_trade_id (disputes d' ! i) = d_trade_id (disputes d' ! j)" for i j
    using that dti [of i] dti [of j] D(4) [of i j] fresh [of i] fresh [of j] ds(1)
    by (auto split: if_splits)
  show "terminal (p_status (p2p_trades d' ! t))"
    if t: "t < length (p2p_trades d')" "escrow_id (p2p_trades d' ! t) = Some e"
      "e_status (escrows d' ! e) \<noteq> ''LOCKED''" for t e
  proof -
    have t': "t < length (p2p_trades d)" "escrow_id (p2p_trades d ! t) = Some e"
      using t eid [of t] len by simp_all
    have old: "terminal (p_status (p2p_trades d ! t))" using D(5) [OF t'] t(3) es by simp
    then have "t \<noteq> tid" using nt by auto
    then show ?thesis using old st [OF t'(1)] by simp
  qed
  show "p_status (p2p_trades d' ! d_trade_id (disputes d' ! i)) = DISPUTED"
    if i: "i < length (disputes d')" "d_status (disputes d' ! i) \<noteq> RESOLVED" for i
  proof (cases "i < length (disputes d)")
    case True
    then have "d_trade_id (disputes d ! i) \<noteq> tid" "d_trade_id (disputes d ! i) < length (p2p_trades d)"
      using fresh D(3) by simp_all
    moreover have "d_status (disputes d ! i) \<noteq> RESOLVED" using i(2) True ds by (simp add: nth_append)
    ultimately show ?thesis using D(6) [OF True] dti [OF i(1)] True st by simp
  next
    case False
    then show ?thesis using dti [OF i(1)] st [OF tid] by simp
  qed
qed

lemma step_new_trade:
  assumes inv: "escrow_consistent d"
    and tr: "p2p_trades d' = p2p_trades d @ [t]" "escrow_id t = Some (length (escrows d))"
    and es: "escrows d' = escrows d @ [x]" "e_status x = ''LOCKED''"
    and ds: "disputes d' = disputes d"
  shows "escrow_consistent d'"
proof (rule escrow_consistentI)
  note D = escrow_consistentD [OF inv]
  have eid: "escrow_id (p2p_trades d' ! k) =
      (if k < length (p2p_trades d) then escrow_id (p2p_trades d ! k) else Some (length (escrows d)))"
    if "k < length (p2p_trades d')" for k
    using that tr by (auto simp: nth_append)
  show "e < length (escrows d')" if "k < length (p2p_trades d')" "escrow_id (p2p_trades d' ! k) = Some e" for k e
    using that eid [of k] D(1) [of k e] es by (auto split: if_splits)
  show "k = k'" if "k < length (p2p_trades d')" "k' < length (p2p_trades d')"
      "escrow_id (p2p_trades d' ! k) = Some e" "escrow_id (p2p_trades d' ! k') = Some e" for k k' e
  proof -
    have old: "e \<noteq> length (escrows d)" if "j < length (p2p_trades d)"
      "escrow_id (p2p_trades d ! j) = Some e" for j
      using D(1) [OF that] by simp
    show ?thesis
    proof (cases "k < length (p2p_trades d)")
      case True
      note k = this
      show ?thesis
      proof (cases "k' < length (p2p_trades d)")
        case True
        then show ?thesis using that k eid [of k] eid [of k'] D(2) [of k k' e] by simp
      next
        case False
        then show ?thesis using that k eid [of k] eid [of k'] old [of k] by simp
      qed
    next
      case False
      note k = this
      show ?thesis
      proof (cases "k' < length (p2p_trades d)")
        case True
        then show ?thesis using that k eid [of k] eid [of k'] old [of k'] by simp
      next
        case False
        then show ?thesis using that k tr(1) by simp
      qed
    qed
  qed
  show "d_trade_id (disputes d' ! i) < length (p2p_trades d')" if "i < length (disputes d')" for i
    using that D(3) [of i] ds tr by simp
  show "i = j" if "i < length (disputes d')" "j < length (disputes d')"
      "d_trade_id (disputes d' ! i) = d_trade_id (disputes d' ! j)" for i j
    using that D(4) [of i j] ds by simp
  show "terminal (p_status (p2p_trades d' ! k))"
    if k: "k < length (p2p_trades d')" "escrow_id (p2p_trades d' ! k) = Some e"
      "e_status (escrows d' ! e) \<noteq> ''LOCKED''" for k e
  proof (cases "k < length (p2p_trades d)")
    case True
    then have e: "escrow_id (p2p_trades d ! k) = Some e" using eid [OF k(1)] k(2) by simp
    then have "e < length (escrows d)" using D(1) [OF True] by simp
    then have "e_status (escrows d ! e) \<noteq> ''LOCKED''" using k(3) es by (simp add: nth_append)
    then show ?thesis using D(5) [OF True e] True tr by (simp add: nth_append)
  next
    case False
    then have "e = length (escrows d)" using eid [OF k(1)] k(2) by simp
    then show ?thesis using k(3) es by simp
  qed
  show "p_status (p2p_trades d' ! d_trade_id (disputes d' ! i)) = DISPUTED"
    if i: "i < length (disputes d')" "d_status (disputes d' ! i) \<noteq> RESOLVED" for i
    using i D(6) [of i] D(3) [of i] ds tr by (simp add: nth_append)
qed


lemma escrows_settled_refl: "escrows_settled d d"
  by (simp add: escrows_settled_def)

lemma escrows_settled_trans:
  "escrows_settled d d1 \<Longrightarrow> escrows_settled d1 d2 \<Longrightarrow> escrows_settled d d2"
  unfolding escrows_settled_def by (metis (no_types, lifting) le_trans less_le_trans)

lemma p2p_same_consistent:
  assumes "p2p_same d d'" "escrow_consistent d"
  shows "escrow_consistent d'"
proof -
  have eqs: "p2p_trades d' = p2p_trades d" "escrows d' = escrows d" "disputes d' = disputes d"
    using assms(1) by (simp_all add: p2p_same_def)
  show ?thesis using assms(2) unfolding escrow_consistent_def eqs .
qed

lemma p2p_same_settled: "p2p_same d d' \<Longrightarrow> escrows_settled d d'"
  by (simp add: p2p_same_def escrows_settled_def)

text \<open>An update of the escrow of a trade, if it has one, leaves all other escrows alone.\<close>

lemma find_escrow_update:
  assumes "es = (case find_escrow d t of None \<Rightarrow> escrows d | Some e \<Rightarrow> (escrows d)[e := x e])"
  shows "length es = length (escrows d)
     \<and> (\<forall>e < length (escrows d). escrow_id t \<noteq> Some e \<longrightarrow> es ! e = escrows d ! e)"
  using assms by (auto simp: find_escrow_def split: option.splits if_splits)

lemma close_trade_step:
  assumes inv: "escrow_consistent d"
    and tid: "tid < length (p2p_trades d)"
    and old: "closable (p_status (p2p_trades d ! tid))"
    and tr: "p2p_trades d' = (p2p_trades d)[tid := t']"
      "escrow_id t' = escrow_id (p2p_trades d ! tid)" "terminal (p_status t')"
    and es: "length (escrows d') = length (escrows d)
       \<and> (\<forall>e < length (escrows d).
            escrow_id (p2p_trades d ! tid) \<noteq> Some e \<longrightarrow> escrows d' ! e = escrows d ! e)"
    and ds: "disputes d' = disputes d"
  shows "escrow_consistent d' \<and> escrows_settled d d'"
proof -
  have ch: "changes_trade tid d d'"
    using tid tr es by (simp add: changes_trade_def)
  have nt: "\<not> terminal (p_status (p2p_trades d ! tid))" "p_status (p2p_trades d ! tid) \<noteq> DISPUTED"
    using old by (auto simp: closable_def terminal_def)
  have "escrow_consistent d'"
  proof (rule step_changes_trade [OF inv ch])
    show "terminal (p_status (p2p_trades d' ! tid))
        \<or> (\<forall>e. escrow_id (p2p_trades d ! tid) = Some e \<longrightarrow> e_status (escrows d' ! e) = ''LOCKED'')"
      using tr tid by simp
    show "p_status (p2p_trades d' ! tid) = DISPUTED"
      if "j < length (disputes d)" "d_status (disputes d' ! j) \<noteq> RESOLVED"
        "d_trade_id (disputes d ! j) = tid" for j
      using escrow_consistentD(6) [OF inv that(1)] that ds nt(2) by simp
  qed (simp_all add: ds)
  moreover have "escrows_settled d d'"
    by (rule changes_trade_settled [OF inv ch]) (simp add: nt)
  ultimately show ?thesis ..
qed

lemma confirm_payment_step:
  assumes inv: "escrow_consistent d" and run: "confirm_payment now tid u d = Inr d'"
  shows "escrow_consistent d' \<and> escrows_settled d d'"
proof -
  note v = confirm_payment_view [OF run]
  show ?thesis
  proof (rule close_trade_step [OF inv])
    show "tid < length (p2p_trades d)" using v by simp
    show "closable (p_status (p2p_trades d ! tid))" using v by (simp add: closable_def)
    show "p2p_trades d' = (p2p_trades d)[tid := (p2p_trades d ! tid)
          \<lparr>p_status := COMPLETED, completed_at := Some now\<rparr>]" using v by simp
    show "length (escrows d') = length (escrows d)
       \<and> (\<forall>e < length (escrows d).
            escrow_id (p2p_trades d ! tid) \<noteq> Some e \<longrightarrow> escrows d' ! e = escrows d ! e)"
      by (rule find_escrow_update) (use v in \<open>simp add: release_escrow_def split: option.splits\<close>)
    show "disputes d' = disputes d" using v by simp
  qed (simp_all add: terminal_def)
qed

lemma cancel_trade_view:
  assumes "cancel_trade tid u d = Inr d'"
  shows "tid < length (p2p_trades d) \<and> closable (p_status (p2p_trades d ! tid))
     \<and> p2p_trades d' = (p2p_trades d)[tid := (p2p_trades d ! tid)\<lparr>p_status := P2P_CANCELLED\<rparr>]
     \<and> escrows d' = (case find_escrow d (p2p_trades d ! tid) of
                       None \<Rightarrow> escrows d
                     | Some e \<Rightarrow> (escrows d)[e := (escrows d ! e)\<lparr>e_status := ''REFUNDED''\<rparr>])
     \<and> disputes d' = disputes d"
  using assms
  by (auto simp: cancel_trade_def get_row_def Let_def closable_def split: if_splits)

lemma cancel_trade_step:
  assumes inv: "escrow_consistent d" and run: "cancel_trade tid u d = Inr d'"
  shows "escrow_consistent d' \<and> escrows_settled d d'"
proof -
  note v = cancel_trade_view [OF run]
  show ?thesis
  proof (rule close_trade_step [OF inv])
    show "p2p_trades d' = (p2p_trades d)[tid := (p2p_trades d ! tid)\<lparr>p_status := P2P_CANCELLED\<rparr>]"
      using v by simp
    show "length (escrows d') = length (escrows d)
       \<and> (\<forall>e < length (escrows d).
            escrow_id (p2p_trades d ! tid) \<noteq> Some e \<longrightarrow> escrows d' ! e = escrows d ! e)"
      by (rule find_escrow_update) (use v in simp)
  qed (use v in \<open>simp_all add: terminal_def\<close>)
qed


lemma cancel_pending_trade_view:
  "p2p_trades (cancel_pending_trade ad_id tid d) =
      (p2p_trades d)[tid := (p2p_trades d ! tid)\<lparr>p_status := P2P_CANCELLED\<rparr>]
   \<and> escrows (cancel_pending_trade ad_id tid d) =
      (case find_escrow d (p2p_trades d ! tid) of
         None \<Rightarrow> escrows d
       | Some e \<Rightarrow> (escrows d)[e := (if e_status (escrows d ! e) = ''LOCKED''
                                    then (escrows d ! e)\<lparr>e_status := ''REFUNDED''\<rparr>
                                    else escrows d ! e)])
   \<and> disputes (cancel_pending_trade ad_id tid d) = disputes d"
  by (simp add: cancel_pending_trade_def Let_def split: option.splits)

lemma cancel_pending_trade_step:
  assumes inv: "escrow_consistent d"
    and tid: "tid < length (p2p_trades d)" "closable (p_status (p2p_trades d ! tid))"
  shows "escrow_consistent (cancel_pending_trade ad_id tid d)
     \<and> escrows_settled d (cancel_pending_trade ad_id tid d)"
proof -
  let ?d' = "cancel_pending_trade ad_id tid d"
  note v = cancel_pending_trade_view [of ad_id tid d]
  show ?thesis
  proof (rule close_trade_step [OF inv tid])
    show "p2p_trades ?d' = (p2p_trades d)[tid := (p2p_trades d ! tid)\<lparr>p_status := P2P_CANCELLED\<rparr>]"
      using v by simp
    show "length (escrows ?d') = length (escrows d)
       \<and> (\<forall>e < length (escrows d).
            escrow_id (p2p_trades d ! tid) \<noteq> Some e \<longrightarrow> escrows ?d' ! e = escrows d ! e)"
      by (rule find_escrow_update) (use v in simp)
    show "disputes ?d' = disputes d" using v by simp
  qed (simp_all add: terminal_def)
qed

lemma fold_cancel_pending_trade_step:
  assumes "distinct ts"
    and "\<forall>t \<in> set ts. t < length (p2p_trades d) \<and> closable (p_status (p2p_trades d ! t))"
    and "escrow_consistent d"
  shows "escrow_consistent (fold (cancel_pending_trade ad_id) ts d)
     \<and> escrows_settled d (fold (cancel_pending_trade ad_id) ts d)"
  using assms
proof (induction ts arbitrary: d)
  case Nil
  then show ?case by (simp add: escrows_settled_refl)
next
  case (Cons t ts)
  let ?d1 = "cancel_pending_trade ad_id t d"
  have t: "t < length (p2p_trades d)" "closable (p_status (p2p_trades d ! t))"
    using Cons.prems(2) by simp_all
  have 1: "escrow_consistent ?d1" "escrows_settled d ?d1"
    using cancel_pending_trade_step [OF Cons.prems(3) t] by simp_all
  have tr: "p2p_trades ?d1 = (p2p_trades d)[t := (p2p_trades d ! t)\<lparr>p_status := P2P_CANCELLED\<rparr>]"
    using cancel_pending_trade_view [of ad_id t d] by simp
  have "\<forall>k \<in> set ts. k < length (p2p_trades ?d1) \<and> closable (p_status (p2p_trades ?d1 ! k))"
  proof
    fix k assume k: "k \<in> set ts"
    then have "k \<noteq> t" "k < length (p2p_trades d)" "closable (p_status (p2p_trades d ! k))"
      using Cons.prems(1,2) by auto
    then show "k < length (p2p_trades ?d1) \<and> closable (p_status (p2p_trades ?d1 ! k))"
      by (simp add: tr)
  qed
  moreover have "distinct ts" using Cons.prems(1) by simp
  ultimately have 2: "escrow_consistent (fold (cancel_pending_trade ad_id) ts ?d1)"
    "escrows_settled ?d1 (fold (cancel_pending_trade ad_id) ts ?d1)"
    using Cons.IH [of ?d1] 1(1) by simp_all
  show ?case using 2 escrows_settled_trans [OF 1(2) 2(2)] by simp
qed

lemma expire_ad_step:
  assumes inv: "escrow_consistent d"
  shows "escrow_consistent (expire_ad now ad_id d) \<and> escrows_settled d (expire_ad now ad_id d)"
proof (cases "expired now (advertisements d ! ad_id)")
  case False
  then show ?thesis using inv by (simp add: expire_ad_not_expired escrows_settled_refl)
next
  case True
  let ?d1 = "d\<lparr>advertisements := (advertisements d)[ad_id := (advertisements d ! ad_id)\<lparr>is_active := False\<rparr>]\<rparr>"
  let ?ts = "filter (\<lambda>i. advertisement_id (p2p_trades ?d1 ! i) = ad_id
                         \<and> (p_status (p2p_trades ?d1 ! i) = P2P_PENDING
                            \<or> p_status (p2p_trades ?d1 ! i) = PAYMENT_SENT))
                [0..<length (p2p_trades ?d1)]"
  have eq: "expire_ad now ad_id d = fold (cancel_pending_trade ad_id) ?ts ?d1"
    using True by (simp add: expire_ad_def expired_def Let_def)
  have same: "p2p_same d ?d1" by (simp add: p2p_same_def)
  have "escrow_consistent (fold (cancel_pending_trade ad_id) ?ts ?d1)
     \<and> escrows_settled ?d1 (fold (cancel_pending_trade ad_id) ?ts ?d1)"
    by (rule fold_cancel_pending_trade_step)
      (use p2p_same_consistent [OF same inv] in \<open>auto simp: closable_def\<close>)
  then show ?thesis
    unfolding eq using escrows_settled_trans [OF p2p_same_settled [OF same]] by blast
qed

lemma check_and_expire_ads_step:
  assumes inv: "escrow_consistent d"
  shows "escrow_consistent (check_and_expire_ads now d)
     \<and> escrows_settled d (check_and_expire_ads now d)"
proof -
  have "escrow_consistent (fold (expire_ad now) xs d) \<and> escrows_settled d (fold (expire_ad now) xs d)"
    if "escrow_consistent d" for xs d
    using that
  proof (induction xs arbitrary: d)
    case Nil
    then show ?case by (simp add: escrows_settled_refl)
  next
    case (Cons x xs)
    from expire_ad_step [OF Cons.prems, of now x]
    have 1: "escrow_consistent (expire_ad now x d)" "escrows_settled d (expire_ad now x d)"
      by simp_all
    from Cons.IH [OF 1(1)] show ?case
      using escrows_settled_trans [OF 1(2)] by simp
  qed
  then show ?thesis using inv by (simp add: check_and_expire_ads_def)
qed


lemma resolve_dispute_view:
  assumes "resolve_dispute now admin i r d = Inr d'"
  shows "i < length (disputes d) \<and> d_status (disputes d ! i) \<noteq> RESOLVED
     \<and> d_trade_id (disputes d ! i) < length (p2p_trades d)
     \<and> disputes d' = (disputes d)[i := (disputes d ! i)
          \<lparr>d_status := RESOLVED, resolution := Some (dr_resolution r),
           resolved_by := Some admin, resolved_at := Some now\<rparr>]
     \<and> (\<exists>t' x. p2p_trades d' = (p2p_trades d)[d_trade_id (disputes d ! i) := t']
          \<and> escrow_id t' = escrow_id (p2p_trades d ! d_trade_id (disputes d ! i))
          \<and> (terminal (p_status t')
               \<or> t' = p2p_trades d ! d_trade_id (disputes d ! i) \<and> escrows d' = escrows d)
          \<and> escrows d' = (case find_escrow d (p2p_trades d ! d_trade_id (disputes d ! i)) of
                            None \<Rightarrow> escrows d
                          | Some e \<Rightarrow> (escrows d)[e := x e]))"
proof -
  let ?t = "p2p_trades d ! d_trade_id (disputes d ! i)"
  from assms have 1: "i < length (disputes d)" "d_status (disputes d ! i) \<noteq> RESOLVED"
    "d_trade_id (disputes d ! i) < length (p2p_trades d)"
    by (auto simp: resolve_dispute_def get_row_def split: if_splits)
  let ?ds = "(disputes d)[i := (disputes d ! i)
          \<lparr>d_status := RESOLVED, resolution := Some (dr_resolution r),
           resolved_by := Some admin, resolved_at := Some now\<rparr>]"
  show ?thesis
  proof (cases "refund_to_buyer r")
    case True
    with assms 1 have "d' = d\<lparr>p2p_trades := (p2p_trades d)[d_trade_id (disputes d ! i) :=
          ?t\<lparr>p_status := P2P_CANCELLED\<rparr>],
        escrows := (case find_escrow d ?t of None \<Rightarrow> escrows d
           | Some e \<Rightarrow> (escrows d)[e := (escrows d ! e)
                 \<lparr>e_status := ''REFUNDED'', released_at := Some now\<rparr>]),
        disputes := ?ds\<rparr>"
      by (simp add: resolve_dispute_def get_row_def Let_def)
    then show ?thesis using 1
      by (intro conjI exI [of _ "?t\<lparr>p_status := P2P_CANCELLED\<rparr>"]
            exI [of _ "\<lambda>e. (escrows d ! e)\<lparr>e_status := ''REFUNDED'', released_at := Some now\<rparr>"])
         (simp_all add: terminal_def)
  next
    case False
    note nr = this
    show ?thesis
    proof (cases "release_to_seller r")
      case True
      with assms 1 nr have "d' = d\<lparr>p2p_trades := (p2p_trades d)[d_trade_id (disputes d ! i) :=
            ?t\<lparr>p_status := COMPLETED, completed_at := Some now\<rparr>],
          escrows := (case find_escrow d ?t of None \<Rightarrow> escrows d
             | Some e \<Rightarrow> (escrows d)[e := (escrows d ! e)
                   \<lparr>e_status := ''RELEASED'', released_at := Some now\<rparr>]),
          disputes := ?ds\<rparr>"
        by (simp add: resolve_dispute_def get_row_def Let_def)
      then show ?thesis using 1
        by (intro conjI exI [of _ "?t\<lparr>p_status := COMPLETED, completed_at := Some now\<rparr>"]
              exI [of _ "\<lambda>e. (escrows d ! e)\<lparr>e_status := ''RELEASED'', released_at := Some now\<rparr>"])
           (simp_all add: terminal_def)
    next
      case False
      with assms 1 nr have "d' = d\<lparr>p2p_trades := (p2p_trades d)[d_trade_id (disputes d ! i) := ?t],
          escrows := escrows d, disputes := ?ds\<rparr>"
        by (simp add: resolve_dispute_def get_row_def Let_def)
      then show ?thesis using 1
        by (intro conjI exI [of _ "?t"] exI [of _ "\<lambda>e. escrows d ! e"])
           (simp_all split: option.splits)
    qed
  qed
qed


lemma resolve_dispute_step:
  assumes inv: "escrow_consistent d" and run: "resolve_dispute now admin i r d = Inr d'"
  shows "escrow_consistent d' \<and> escrows_settled d d'"
proof -
  let ?tid = "d_trade_id (disputes d ! i)"
  let ?t = "p2p_trades d ! ?tid"
  note D = escrow_consistentD [OF inv]
  from resolve_dispute_view [OF run] obtain t' x where
    i: "i < length (disputes d)" "d_status (disputes d ! i) \<noteq> RESOLVED"
      "?tid < length (p2p_trades d)" and
    ds: "disputes d' = (disputes d)[i := (disputes d ! i)
          \<lparr>d_status := RESOLVED, resolution := Some (dr_resolution r),
           resolved_by := Some admin, resolved_at := Some now\<rparr>]" and
    tr: "p2p_trades d' = (p2p_trades d)[?tid := t']" "escrow_id t' = escrow_id ?t" and
    out: "terminal (p_status t') \<or> t' = ?t \<and> escrows d' = escrows d" and
    es: "escrows d' = (case find_escrow d ?t of None \<Rightarrow> escrows d
                       | Some e \<Rightarrow> (escrows d)[e := x e])"
    by blast
  have old: "p_status ?t = DISPUTED" using D(6) [OF i(1,2)] .
  have esc: "length (escrows d') = length (escrows d)
       \<and> (\<forall>e < length (escrows d). escrow_id ?t \<noteq> Some e \<longrightarrow> escrows d' ! e = escrows d ! e)"
    by (rule find_escrow_update [OF es])
  have ch: "changes_trade ?tid d d'"
    using i(3) tr esc by (simp add: changes_trade_def)
  have "escrow_consistent d'"
  proof (rule step_changes_trade [OF inv ch])
    show "length (disputes d') = length (disputes d)" using ds by simp
    show "d_trade_id (disputes d' ! j) = d_trade_id (disputes d ! j)" if "j < length (disputes d)" for j
      using that ds by (cases "j = i") simp_all
    show "d_status (disputes d ! j) \<noteq> RESOLVED"
      if "j < length (disputes d)" "d_status (disputes d' ! j) \<noteq> RESOLVED" for j
      using that ds by (cases "j = i") simp_all
    show "terminal (p_status (p2p_trades d' ! ?tid))
        \<or> (\<forall>e. escrow_id ?t = Some e \<longrightarrow> e_status (escrows d' ! e) = ''LOCKED'')"
    proof (cases "terminal (p_status t')")
      case True
      then show ?thesis using tr i(3) by simp
    next
      case False
      then have same: "escrows d' = escrows d" using out by simp
      have "e_status (escrows d ! e) = ''LOCKED''" if "escrow_id ?t = Some e" for e
        using D(5) [OF i(3) that] old by (auto simp: terminal_def)
      then show ?thesis using same by simp
    qed
    show "p_status (p2p_trades d' ! ?tid) = DISPUTED"
      if j: "j < length (disputes d)" "d_status (disputes d' ! j) \<noteq> RESOLVED"
        "d_trade_id (disputes d ! j) = ?tid" for j
    proof -
      have "j = i" using D(4) [OF j(1) i(1) j(3)] .
      then show ?thesis using j(2) ds i(1) by simp
    qed
  qed
  moreover have "escrows_settled d d'"
    by (rule changes_trade_settled [OF inv ch]) (simp add: old terminal_def)
  ultimately show ?thesis ..
qed

lemma mark_payment_sent_view:
  assumes "mark_payment_sent tid u d = Inr d'"
  shows "tid < length (p2p_trades d) \<and> p_status (p2p_trades d ! tid) = P2P_PENDING
     \<and> p2p_trades d' = (p2p_trades d)[tid := (p2p_trades d ! tid)\<lparr>p_status := PAYMENT_SENT\<rparr>]
     \<and> escrows d' = escrows d \<and> disputes d' = disputes d"
  using assms by (auto simp: mark_payment_sent_def get_row_def split: if_splits)

lemma mark_payment_sent_step:
  assumes inv: "escrow_consistent d" and run: "mark_payment_sent tid u d = Inr d'"
  shows "escrow_consistent d' \<and> escrows_settled d d'"
proof -
  note v = mark_payment_sent_view [OF run]
  note D = escrow_consistentD [OF inv]
  have tid: "tid < length (p2p_trades d)" and old: "p_status (p2p_trades d ! tid) = P2P_PENDING"
    using v by simp_all
  have ch: "changes_trade tid d d'"
    using v by (simp add: changes_trade_def)
  have "escrow_consistent d'"
  proof (rule step_changes_trade [OF inv ch])
    have "e_status (escrows d ! e) = ''LOCKED''" if "escrow_id (p2p_trades d ! tid) = Some e" for e
      using D(5) [OF tid that] old by (auto simp: terminal_def)
    then show "terminal (p_status (p2p_trades d' ! tid))
        \<or> (\<forall>e. escrow_id (p2p_trades d ! tid) = Some e \<longrightarrow> e_status (escrows d' ! e) = ''LOCKED'')"
      using v by simp
    show "p_status (p2p_trades d' ! tid) = DISPUTED"
      if "j < length (disputes d)" "d_status (disputes d' ! j) \<noteq> RESOLVED"
        "d_trade_id (disputes d ! j) = tid" for j
      using D(6) [OF that(1)] that v old by simp
  qed (use v in simp_all)
  moreover have "escrows_settled d d'"
    using v by (simp add: escrows_settled_def)
  ultimately show ?thesis ..
qed

lemma first_key_None: "first_key P xs = None \<Longrightarrow> i < length xs \<Longrightarrow> \<not> P (xs ! i)"
proof (induction xs arbitrary: i)
  case Nil
  then show ?case by simp
next
  case (Cons x xs)
  then show ?case by (cases i) (auto split: if_splits)
qed

lemma create_dispute_view:
  assumes "create_dispute tid u d = Inr d'"
  shows "tid < length (p2p_trades d) \<and> \<not> terminal (p_status (p2p_trades d ! tid))
     \<and> first_key (\<lambda>x. d_trade_id x = tid) (disputes d) = None
     \<and> p2p_trades d' = (p2p_trades d)[tid := (p2p_trades d ! tid)\<lparr>p_status := DISPUTED\<rparr>]
     \<and> escrows d' = escrows d
     \<and> disputes d' = disputes d @ [\<lparr>d_trade_id = tid, filed_by = u, d_status = OPEN,
           resolution = None, resolved_by = None, resolved_at = None\<rparr>]"
  using assms by (auto simp: create_dispute_def get_row_def terminal_def split: if_splits)

lemma create_dispute_step:
  assumes inv: "escrow_consistent d" and run: "create_dispute tid u d = Inr d'"
  shows "escrow_consistent d' \<and> escrows_settled d d'"
proof -
  note v = create_dispute_view [OF run]
  have "escrow_consistent d'"
  proof (rule step_new_dispute [OF inv])
    show "d_trade_id (disputes d ! j) \<noteq> tid" if "j < length (disputes d)" for j
      using first_key_None [of "\<lambda>x. d_trade_id x = tid" "disputes d" j] v that by simp
    show "disputes d' = disputes d @ [\<lparr>d_trade_id = tid, filed_by = u, d_status = OPEN,
           resolution = None, resolved_by = None, resolved_at = None\<rparr>]"
      using v by simp
  qed (use v in simp_all)
  moreover have "escrows_settled d d'"
    using v by (simp add: escrows_settled_def)
  ultimately show ?thesis ..
qed

lemma initiate_trade_view:
  assumes "initiate_trade now u r d = Inr d'"
  shows "\<exists>t x. p2p_trades d' = p2p_trades d @ [t] \<and> escrow_id t = Some (length (escrows d))
     \<and> escrows d' = escrows d @ [x] \<and> e_status x = ''LOCKED''
     \<and> disputes d' = disputes d"
  using assms
  by (auto simp: initiate_trade_def get_row_def Let_def split: if_splits option.splits)

lemma initiate_trade_step:
  assumes inv: "escrow_consistent d" and run: "initiate_trade now u r d = Inr d'"
  shows "escrow_consistent d' \<and> escrows_settled d d'"
proof -
  from initiate_trade_view [OF run] obtain t x where
    v: "p2p_trades d' = p2p_trades d @ [t]" "escrow_id t = Some (length (escrows d))"
      "escrows d' = escrows d @ [x]" "e_status x = ''LOCKED''" "disputes d' = disputes d"
    by blast
  have "escrow_consistent d'" by (rule step_new_trade [OF inv v])
  moreover have "escrows_settled d d'"
    using v(3) by (simp add: escrows_settled_def nth_append)
  ultimately show ?thesis ..
qed


lemma apply_op_step:
  assumes inv: "escrow_consistent d"
  shows "escrow_consistent (apply_op now op d) \<and> escrows_settled d (apply_op now op d)"
proof (cases op)
  case (Initiate_trade u r)
  then show ?thesis using inv initiate_trade_step [OF inv, of now u r]
    by (cases "initiate_trade now u r d") (simp_all add: committed_def escrows_settled_refl)
next
  case (Mark_payment_sent t u)
  then show ?thesis using inv mark_payment_sent_step [OF inv, of t u]
    by (cases "mark_payment_sent t u d") (simp_all add: committed_def escrows_settled_refl)
next
  case (Confirm_payment t u)
  then show ?thesis using inv confirm_payment_step [OF inv, of now t u]
    by (cases "confirm_payment now t u d") (simp_all add: committed_def escrows_settled_refl)
next
  case (Cancel_trade t u)
  then show ?thesis using inv cancel_trade_step [OF inv, of t u]
    by (cases "cancel_trade t u d") (simp_all add: committed_def escrows_settled_refl)
next
  case (Create_dispute t u)
  then show ?thesis using inv create_dispute_step [OF inv, of t u]
    by (cases "create_dispute t u d") (simp_all add: committed_def escrows_settled_refl)
next
  case (Resolve_dispute a i r)
  then show ?thesis using inv resolve_dispute_step [OF inv, of now a i r]
    by (cases "resolve_dispute now a i r d") (simp_all add: committed_def escrows_settled_refl)
next
  case Sweep
  then show ?thesis using check_and_expire_ads_step [OF inv, of now] by simp
qed

lemma run_ops_step:
  assumes "escrow_consistent d"
  shows "escrow_consistent (run_ops ops d) \<and> escrows_settled d (run_ops ops d)"
  using assms
proof (induction ops arbitrary: d)
  case Nil
  then show ?case by (simp add: escrows_settled_refl)
next
  case (Cons x ops)
  obtain now op where x: "x = (now, op)" by (cases x)
  from apply_op_step [OF Cons.prems, of now op]
  have 1: "escrow_consistent (apply_op now op d)" "escrows_settled d (apply_op now op d)"
    by simp_all
  from Cons.IH [OF 1(1)] show ?case
    using escrows_settled_trans [OF 1(2)] by (simp add: x)
qed

lemma run_ops_append: "run_ops (ops1 @ ops2) d = run_ops ops2 (run_ops ops1 d)"
  by (induction ops1 arbitrary: d) auto

lemma resolved_kept_refl: "resolved_kept d d"
  by (simp add: resolved_kept_def)

lemma resolved_kept_trans: "resolved_kept d d1 \<Longrightarrow> resolved_kept d1 d2 \<Longrightarrow> resolved_kept d d2"
  unfolding resolved_kept_def by (metis (no_types, lifting) le_trans less_le_trans)

lemma same_disputes_kept: "disputes d' = disputes d \<Longrightarrow> resolved_kept d d'"
  by (simp add: resolved_kept_def)

lemma sweep_disputes: "disputes (check_and_expire_ads now d) = disputes d"
proof -
  have c: "disputes (fold (cancel_pending_trade a) ts d) = disputes d" for a ts d
    by (induction ts arbitrary: d) (simp_all add: cancel_pending_trade_view)
  have e: "disputes (expire_ad now i d) = disputes d" for i d
    by (simp add: expire_ad_def Let_def c)
  have "disputes (fold (expire_ad now) xs d) = disputes d" for xs d
    by (induction xs arbitrary: d) (simp_all add: e)
  then show ?thesis by (simp add: check_and_expire_ads_def)
qed

lemma apply_op_resolved_kept: "resolved_kept d (apply_op now op d)"
proof (cases op)
  case (Initiate_trade u r)
  then show ?thesis
    by (cases "initiate_trade now u r d")
      (auto simp: committed_def resolved_kept_refl dest!: initiate_trade_view intro: same_disputes_kept)
next
  case (Mark_payment_sent t u)
  then show ?thesis
    by (cases "mark_payment_sent t u d")
      (auto simp: committed_def resolved_kept_refl dest!: mark_payment_sent_view intro: same_disputes_kept)
next
  case (Confirm_payment t u)
  then show ?thesis
    by (cases "confirm_payment now t u d")
      (auto simp: committed_def resolved_kept_refl dest!: confirm_payment_view intro: same_disputes_kept)
next
  case (Cancel_trade t u)
  then show ?thesis
    by (cases "cancel_trade t u d")
      (auto simp: committed_def resolved_kept_refl dest!: cancel_trade_view intro: same_disputes_kept)
next
  case (Create_dispute t u)
  then show ?thesis
    by (cases "create_dispute t u d")
      (auto simp: committed_def resolved_kept_refl resolved_kept_def nth_append
         dest!: create_dispute_view)
next
  case (Resolve_dispute a i r)
  show ?thesis
  proof (cases "resolve_dispute now a i r d")
    case (Inl e)
    then show ?thesis using Resolve_dispute by (simp add: committed_def resolved_kept_refl)
  next
    case (Inr d')
    from resolve_dispute_view [OF Inr]
    have eq: "disputes d' = (disputes d)[i := (disputes d ! i)
          \<lparr>d_status := RESOLVED, resolution := Some (dr_resolution r),
           resolved_by := Some a, resolved_at := Some now\<rparr>]" by blast
    then have "d_status (disputes d' ! j) = RESOLVED"
      if "j < length (disputes d)" "d_status (disputes d ! j) = RESOLVED" for j
      using that by (cases "j = i") simp_all
    moreover have "length (disputes d) \<le> length (disputes d')"
      using eq by simp
    ultimately have "resolved_kept d d'"
      by (simp add: resolved_kept_def)
    then show ?thesis using Resolve_dispute Inr by (simp add: committed_def)
  qed
next
  case Sweep
  then show ?thesis by (simp add: sweep_disputes same_disputes_kept)
qed

lemma run_ops_resolved_kept: "resolved_kept d (run_ops ops d)"
proof (induction ops arbitrary: d)
  case Nil
  then show ?case by (simp add: resolved_kept_refl)
next
  case (Cons x ops)
  obtain now op where x: "x = (now, op)" by (cases x)
  show ?case
    using resolved_kept_trans [OF apply_op_resolved_kept Cons.IH, of d now op] by (simp add: x)
qed

lemma resolve_dispute_resolved:
  "i < length (disputes d) \<Longrightarrow> d_status (disputes d ! i) = RESOLVED \<Longrightarrow>
     resolve_dispute now admin i r d = Inl (HTTP_400_BAD_REQUEST ''Dispute already resolved'')"
  by (simp add: resolve_dispute_def get_row_def)

text \<open>
  Claim C8. From a consistent state, run any sequence of P2P requests (trade initiation,
  payment sent, payment confirmation, cancellation, dispute filing, dispute resolution,
  expiration sweep). An escrow that has left LOCKED at some point of the run is never
  changed again by the rest of the run, so it leaves LOCKED at most once. And once a
  dispute has been resolved, resolving it again, at any later point, fails with the error
  ``Dispute already resolved'' and leaves the database as it is.
\<close>

theorem escrow_leaves_locked_once:
  assumes inv: "escrow_consistent d"
  shows "(\<forall>e < length (escrows (run_ops ops1 d)).
            e_status (escrows (run_ops ops1 d) ! e) \<noteq> ''LOCKED'' \<longrightarrow>
            escrows (run_ops (ops1 @ ops2) d) ! e = escrows (run_ops ops1 d) ! e)
     \<and> (\<forall>d1. resolve_dispute now admin i r (run_ops ops1 d) = Inr d1 \<longrightarrow>
            resolve_dispute now' admin' i r' (run_ops ops2 d1)
              = Inl (HTTP_400_BAD_REQUEST ''Dispute already resolved'')
            \<and> apply_op now' (Resolve_dispute admin' i r') (run_ops ops2 d1) = run_ops ops2 d1)"
proof (intro conjI allI impI)
  let ?s = "run_ops ops1 d"
  have "escrow_consistent ?s" using run_ops_step [OF inv] by simp
  then have "escrows_settled ?s (run_ops ops2 ?s)" using run_ops_step by simp
  then show "escrows (run_ops (ops1 @ ops2) d) ! e = escrows ?s ! e"
    if "e < length (escrows ?s)" "e_status (escrows ?s ! e) \<noteq> ''LOCKED''" for e
    using that by (simp add: run_ops_append escrows_settled_def)
next
  fix d1 assume run: "resolve_dispute now admin i r (run_ops ops1 d) = Inr d1"
  from resolve_dispute_view [OF run]
  have "i < length (disputes (run_ops ops1 d))"
    "disputes d1 = (disputes (run_ops ops1 d))[i := (disputes (run_ops ops1 d) ! i)
          \<lparr>d_status := RESOLVED, resolution := Some (dr_resolution r),
           resolved_by := Some admin, resolved_at := Some now\<rparr>]" by blast+
  then have "i < length (disputes d1)" "d_status (disputes d1 ! i) = RESOLVED" by simp_all
  then have "i < length (disputes (run_ops ops2 d1))"
    "d_status (disputes (run_ops ops2 d1) ! i) = RESOLVED"
    using run_ops_resolved_kept [of d1 ops2] by (auto simp: resolved_kept_def)
  then have fail: "resolve_dispute now' admin' i r' (run_ops ops2 d1)
              = Inl (HTTP_400_BAD_REQUEST ''Dispute already resolved'')"
    by (rule resolve_dispute_resolved)
  then show "resolve_dispute now' admin' i r' (run_ops ops2 d1)
              = Inl (HTTP_400_BAD_REQUEST ''Dispute already resolved'')" .
  show "apply_op now' (Resolve_dispute admin' i r') (run_ops ops2 d1) = run_ops ops2 d1"
    by (simp add: fail committed_def)
qed


theorem escrow_leaves_locked_once_witness:
  "escrow_consistent p2p_disputed
   \<and> e_status (escrows (run_ops [(9, Resolve_dispute 7 0 refund_req)] p2p_disputed) ! 0) = ''REFUNDED''
   \<and> escrows (run_ops ([(9, Resolve_dispute 7 0 refund_req)]
         @ [(10, Resolve_dispute 7 0 release_req), (11, Cancel_trade 0 1),
            (12, Confirm_payment 0 2), (13, Sweep)]) p2p_disputed) ! 0
       = escrows (run_ops [(9, Resolve_dispute 7 0 refund_req)] p2p_disputed) ! 0
   \<and> resolve_dispute 9 7 0 refund_req (run_ops [] p2p_disputed) = Inr p2p_refunded
   \<and> resolve_dispute 10 7 0 release_req (run_ops [(11, Cancel_trade 0 1)] p2p_refunded)
       = Inl (HTTP_400_BAD_REQUEST ''Dispute already resolved'')"
proof -
  have c: "escrow_consistent p2p_disputed" by code_simp
  have l: "0 < length (escrows (run_ops [(9, Resolve_dispute 7 0 refund_req)] p2p_disputed))"
    by code_simp
  have s: "e_status (escrows (run_ops [(9, Resolve_dispute 7 0 refund_req)] p2p_disputed) ! 0)
      = ''REFUNDED''"
    by code_simp
  have r: "resolve_dispute 9 7 0 refund_req (run_ops [] p2p_disputed) = Inr p2p_refunded"
    by code_simp
  have s': "e_status (escrows (run_ops [(9, Resolve_dispute 7 0 refund_req)] p2p_disputed) ! 0)
      \<noteq> ''LOCKED''"
    by (simp only: s) simp
  have 1: "escrows (run_ops ([(9, Resolve_dispute 7 0 refund_req)]
         @ [(10, Resolve_dispute 7 0 release_req), (11, Cancel_trade 0 1),
            (12, Confirm_payment 0 2), (13, Sweep)]) p2p_disputed) ! 0
       = escrows (run_ops [(9, Resolve_dispute 7 0 refund_req)] p2p_disputed) ! 0"
    by (rule escrow_leaves_locked_once [OF c, THEN conjunct1, rule_format, OF l s'])
  have 2: "resolve_dispute 10 7 0 release_req (run_ops [(11, Cancel_trade 0 1)] p2p_refunded)
       = Inl (HTTP_400_BAD_REQUEST ''Dispute already resolved'')"
    by (rule escrow_leaves_locked_once [OF c, THEN conjunct2, rule_format, OF r, THEN conjunct1])
  show ?thesis using c s 1 r 2 by blast
qed

end
